theory Spec2Isabelle
  imports Main "HOL-Library.Word"
begin

section \<open>Error code registry (error/s2n_errno.h)\<close>

text \<open>
  An error value is a C \<open>int\<close>, read here as a 32-bit word. The header splits it into
  an error type in the upper 6 bits and a value within the category in the lower 26 bits.
\<close>

type_synonym s2n_error = "32 word"

definition S2N_ERR_NUM_VALUE_BITS :: nat where
  "S2N_ERR_NUM_VALUE_BITS = 26"

text \<open>
  Modelled from the spec: the enumeration of error types (\<open>S2N_ERR_T_OK\<close> ...
  \<open>S2N_ERR_T_USAGE\<close>) is declared in api/s2n.h, which is not among the sources. The
  spec lists the 8 categories in ascending order: OK, IO, CLOSED, BLOCKED, ALERT, PROTOCOL,
  INTERNAL, USAGE; the blocks of the \<open>s2n_error\<close> enumeration follow the same order.
\<close>

definition S2N_ERR_T_OK :: "32 word" where
  "S2N_ERR_T_OK = 0"

definition S2N_ERR_T_IO :: "32 word" where
  "S2N_ERR_T_IO = 1"

definition S2N_ERR_T_CLOSED :: "32 word" where
  "S2N_ERR_T_CLOSED = 2"

definition S2N_ERR_T_BLOCKED :: "32 word" where
  "S2N_ERR_T_BLOCKED = 3"

definition S2N_ERR_T_ALERT :: "32 word" where
  "S2N_ERR_T_ALERT = 4"

definition S2N_ERR_T_PROTO :: "32 word" where
  "S2N_ERR_T_PROTO = 5"

definition S2N_ERR_T_INTERNAL :: "32 word" where
  "S2N_ERR_T_INTERNAL = 6"

definition S2N_ERR_T_USAGE :: "32 word" where
  "S2N_ERR_T_USAGE = 7"

text \<open>
  Modelled from the spec: \<open>s2n_error_get_type\<close> is defined in error/s2n_errno.c, which
  is not among the sources. The spec has it extract the top 6 bits of the error value.
\<close>

definition s2n_error_get_type :: "s2n_error \<Rightarrow> 32 word" where
  "s2n_error_get_type error = drop_bit S2N_ERR_NUM_VALUE_BITS error"

subsection \<open>Start value of each error type\<close>

definition S2N_ERR_T_OK_START :: s2n_error where
  "S2N_ERR_T_OK_START = push_bit S2N_ERR_NUM_VALUE_BITS S2N_ERR_T_OK"

definition S2N_ERR_T_IO_START :: s2n_error where
  "S2N_ERR_T_IO_START = push_bit S2N_ERR_NUM_VALUE_BITS S2N_ERR_T_IO"

definition S2N_ERR_T_CLOSED_START :: s2n_error where
  "S2N_ERR_T_CLOSED_START = push_bit S2N_ERR_NUM_VALUE_BITS S2N_ERR_T_CLOSED"

definition S2N_ERR_T_BLOCKED_START :: s2n_error where
  "S2N_ERR_T_BLOCKED_START = push_bit S2N_ERR_NUM_VALUE_BITS S2N_ERR_T_BLOCKED"

definition S2N_ERR_T_ALERT_START :: s2n_error where
  "S2N_ERR_T_ALERT_START = push_bit S2N_ERR_NUM_VALUE_BITS S2N_ERR_T_ALERT"

definition S2N_ERR_T_PROTO_START :: s2n_error where
  "S2N_ERR_T_PROTO_START = push_bit S2N_ERR_NUM_VALUE_BITS S2N_ERR_T_PROTO"

definition S2N_ERR_T_INTERNAL_START :: s2n_error where
  "S2N_ERR_T_INTERNAL_START = push_bit S2N_ERR_NUM_VALUE_BITS S2N_ERR_T_INTERNAL"

definition S2N_ERR_T_USAGE_START :: s2n_error where
  "S2N_ERR_T_USAGE_START = push_bit S2N_ERR_NUM_VALUE_BITS S2N_ERR_T_USAGE"

subsection \<open>The error values used by the alert code\<close>

text \<open>
  The first value of a block is the block's start value. Of the long INTERNAL block only
  the values raised by the alert code are named, each by its position in the block.
\<close>

definition S2N_ERR_OK :: s2n_error where
  "S2N_ERR_OK = S2N_ERR_T_OK_START"

definition S2N_ERR_IO :: s2n_error where
  "S2N_ERR_IO = S2N_ERR_T_IO_START"

definition S2N_ERR_CLOSED :: s2n_error where
  "S2N_ERR_CLOSED = S2N_ERR_T_CLOSED_START"

definition S2N_ERR_IO_BLOCKED :: s2n_error where
  "S2N_ERR_IO_BLOCKED = S2N_ERR_T_BLOCKED_START"

definition S2N_ERR_ALERT :: s2n_error where
  "S2N_ERR_ALERT = S2N_ERR_T_ALERT_START"

definition S2N_ERR_MADVISE :: s2n_error where
  "S2N_ERR_MADVISE = S2N_ERR_T_INTERNAL_START"

definition S2N_ERR_NULL :: s2n_error where
  "S2N_ERR_NULL = S2N_ERR_T_INTERNAL_START + 9"

definition S2N_ERR_SAFETY :: s2n_error where
  "S2N_ERR_SAFETY = S2N_ERR_T_INTERNAL_START + 10"

definition S2N_ERR_STUFFER_OUT_OF_DATA :: s2n_error where
  "S2N_ERR_STUFFER_OUT_OF_DATA = S2N_ERR_T_INTERNAL_START + 17"

definition S2N_ERR_STUFFER_IS_FULL :: s2n_error where
  "S2N_ERR_STUFFER_IS_FULL = S2N_ERR_T_INTERNAL_START + 18"

definition S2N_ERR_ALERT_PRESENT :: s2n_error where
  "S2N_ERR_ALERT_PRESENT = S2N_ERR_T_INTERNAL_START + 33"

definition S2N_ERR_UNIMPLEMENTED :: s2n_error where
  "S2N_ERR_UNIMPLEMENTED = S2N_ERR_T_INTERNAL_START + 47"

definition S2N_ERR_NO_ALERT :: s2n_error where
  "S2N_ERR_NO_ALERT = S2N_ERR_T_USAGE_START"

subsection \<open>The PROTO block of the enumeration\<close>

text \<open>
  Every enumerator without an initialiser is its predecessor plus one, as in C. The block
  is closed by the sentinel \<open>S2N_ERR_T_PROTO_END\<close>, which is not an error value.
\<close>

definition S2N_ERR_ENCRYPT :: s2n_error where
  "S2N_ERR_ENCRYPT = S2N_ERR_T_PROTO_START"

definition S2N_ERR_DECRYPT :: s2n_error where
  "S2N_ERR_DECRYPT = S2N_ERR_ENCRYPT + 1"

definition S2N_ERR_BAD_MESSAGE :: s2n_error where
  "S2N_ERR_BAD_MESSAGE = S2N_ERR_DECRYPT + 1"

definition S2N_ERR_UNEXPECTED_CERT_REQUEST :: s2n_error where
  "S2N_ERR_UNEXPECTED_CERT_REQUEST = S2N_ERR_BAD_MESSAGE + 1"

definition S2N_ERR_KEY_INIT :: s2n_error where
  "S2N_ERR_KEY_INIT = S2N_ERR_UNEXPECTED_CERT_REQUEST + 1"

definition S2N_ERR_KEY_DESTROY :: s2n_error where
  "S2N_ERR_KEY_DESTROY = S2N_ERR_KEY_INIT + 1"

definition S2N_ERR_DH_SERIALIZING :: s2n_error where
  "S2N_ERR_DH_SERIALIZING = S2N_ERR_KEY_DESTROY + 1"

definition S2N_ERR_DH_SHARED_SECRET :: s2n_error where
  "S2N_ERR_DH_SHARED_SECRET = S2N_ERR_DH_SERIALIZING + 1"

definition S2N_ERR_DH_WRITING_PUBLIC_KEY :: s2n_error where
  "S2N_ERR_DH_WRITING_PUBLIC_KEY = S2N_ERR_DH_SHARED_SECRET + 1"

definition S2N_ERR_DH_FAILED_SIGNING :: s2n_error where
  "S2N_ERR_DH_FAILED_SIGNING = S2N_ERR_DH_WRITING_PUBLIC_KEY + 1"

definition S2N_ERR_DH_COPYING_PARAMETERS :: s2n_error where
  "S2N_ERR_DH_COPYING_PARAMETERS = S2N_ERR_DH_FAILED_SIGNING + 1"

definition S2N_ERR_DH_GENERATING_PARAMETERS :: s2n_error where
  "S2N_ERR_DH_GENERATING_PARAMETERS = S2N_ERR_DH_COPYING_PARAMETERS + 1"

definition S2N_ERR_CIPHER_NOT_SUPPORTED :: s2n_error where
  "S2N_ERR_CIPHER_NOT_SUPPORTED = S2N_ERR_DH_GENERATING_PARAMETERS + 1"

definition S2N_ERR_NO_APPLICATION_PROTOCOL :: s2n_error where
  "S2N_ERR_NO_APPLICATION_PROTOCOL = S2N_ERR_CIPHER_NOT_SUPPORTED + 1"

definition S2N_ERR_FALLBACK_DETECTED :: s2n_error where
  "S2N_ERR_FALLBACK_DETECTED = S2N_ERR_NO_APPLICATION_PROTOCOL + 1"

definition S2N_ERR_HASH_DIGEST_FAILED :: s2n_error where
  "S2N_ERR_HASH_DIGEST_FAILED = S2N_ERR_FALLBACK_DETECTED + 1"

definition S2N_ERR_HASH_INIT_FAILED :: s2n_error where
  "S2N_ERR_HASH_INIT_FAILED = S2N_ERR_HASH_DIGEST_FAILED + 1"

definition S2N_ERR_HASH_UPDATE_FAILED :: s2n_error where
  "S2N_ERR_HASH_UPDATE_FAILED = S2N_ERR_HASH_INIT_FAILED + 1"

definition S2N_ERR_HASH_COPY_FAILED :: s2n_error where
  "S2N_ERR_HASH_COPY_FAILED = S2N_ERR_HASH_UPDATE_FAILED + 1"

definition S2N_ERR_HASH_WIPE_FAILED :: s2n_error where
  "S2N_ERR_HASH_WIPE_FAILED = S2N_ERR_HASH_COPY_FAILED + 1"

definition S2N_ERR_HASH_NOT_READY :: s2n_error where
  "S2N_ERR_HASH_NOT_READY = S2N_ERR_HASH_WIPE_FAILED + 1"

definition S2N_ERR_ALLOW_MD5_FOR_FIPS_FAILED :: s2n_error where
  "S2N_ERR_ALLOW_MD5_FOR_FIPS_FAILED = S2N_ERR_HASH_NOT_READY + 1"

definition S2N_ERR_DECODE_CERTIFICATE :: s2n_error where
  "S2N_ERR_DECODE_CERTIFICATE = S2N_ERR_ALLOW_MD5_FOR_FIPS_FAILED + 1"

definition S2N_ERR_DECODE_PRIVATE_KEY :: s2n_error where
  "S2N_ERR_DECODE_PRIVATE_KEY = S2N_ERR_DECODE_CERTIFICATE + 1"

definition S2N_ERR_INVALID_HELLO_RETRY :: s2n_error where
  "S2N_ERR_INVALID_HELLO_RETRY = S2N_ERR_DECODE_PRIVATE_KEY + 1"

definition S2N_ERR_INVALID_SIGNATURE_ALGORITHM :: s2n_error where
  "S2N_ERR_INVALID_SIGNATURE_ALGORITHM = S2N_ERR_INVALID_HELLO_RETRY + 1"

definition S2N_ERR_INVALID_SIGNATURE_SCHEME :: s2n_error where
  "S2N_ERR_INVALID_SIGNATURE_SCHEME = S2N_ERR_INVALID_SIGNATURE_ALGORITHM + 1"

definition S2N_ERR_NO_VALID_SIGNATURE_SCHEME :: s2n_error where
  "S2N_ERR_NO_VALID_SIGNATURE_SCHEME = S2N_ERR_INVALID_SIGNATURE_SCHEME + 1"

definition S2N_ERR_CBC_VERIFY :: s2n_error where
  "S2N_ERR_CBC_VERIFY = S2N_ERR_NO_VALID_SIGNATURE_SCHEME + 1"

definition S2N_ERR_DH_COPYING_PUBLIC_KEY :: s2n_error where
  "S2N_ERR_DH_COPYING_PUBLIC_KEY = S2N_ERR_CBC_VERIFY + 1"

definition S2N_ERR_SIGN :: s2n_error where
  "S2N_ERR_SIGN = S2N_ERR_DH_COPYING_PUBLIC_KEY + 1"

definition S2N_ERR_VERIFY_SIGNATURE :: s2n_error where
  "S2N_ERR_VERIFY_SIGNATURE = S2N_ERR_SIGN + 1"

definition S2N_ERR_ECDHE_GEN_KEY :: s2n_error where
  "S2N_ERR_ECDHE_GEN_KEY = S2N_ERR_VERIFY_SIGNATURE + 1"

definition S2N_ERR_ECDHE_SHARED_SECRET :: s2n_error where
  "S2N_ERR_ECDHE_SHARED_SECRET = S2N_ERR_ECDHE_GEN_KEY + 1"

definition S2N_ERR_ECDHE_UNSUPPORTED_CURVE :: s2n_error where
  "S2N_ERR_ECDHE_UNSUPPORTED_CURVE = S2N_ERR_ECDHE_SHARED_SECRET + 1"

definition S2N_ERR_ECDSA_UNSUPPORTED_CURVE :: s2n_error where
  "S2N_ERR_ECDSA_UNSUPPORTED_CURVE = S2N_ERR_ECDHE_UNSUPPORTED_CURVE + 1"

definition S2N_ERR_ECDHE_SERIALIZING :: s2n_error where
  "S2N_ERR_ECDHE_SERIALIZING = S2N_ERR_ECDSA_UNSUPPORTED_CURVE + 1"

definition S2N_ERR_KEM_UNSUPPORTED_PARAMS :: s2n_error where
  "S2N_ERR_KEM_UNSUPPORTED_PARAMS = S2N_ERR_ECDHE_SERIALIZING + 1"

definition S2N_ERR_SHUTDOWN_RECORD_TYPE :: s2n_error where
  "S2N_ERR_SHUTDOWN_RECORD_TYPE = S2N_ERR_KEM_UNSUPPORTED_PARAMS + 1"

definition S2N_ERR_SHUTDOWN_CLOSED :: s2n_error where
  "S2N_ERR_SHUTDOWN_CLOSED = S2N_ERR_SHUTDOWN_RECORD_TYPE + 1"

definition S2N_ERR_NON_EMPTY_RENEGOTIATION_INFO :: s2n_error where
  "S2N_ERR_NON_EMPTY_RENEGOTIATION_INFO = S2N_ERR_SHUTDOWN_CLOSED + 1"

definition S2N_ERR_RECORD_LIMIT :: s2n_error where
  "S2N_ERR_RECORD_LIMIT = S2N_ERR_NON_EMPTY_RENEGOTIATION_INFO + 1"

definition S2N_ERR_CERT_UNTRUSTED :: s2n_error where
  "S2N_ERR_CERT_UNTRUSTED = S2N_ERR_RECORD_LIMIT + 1"

definition S2N_ERR_CERT_REVOKED :: s2n_error where
  "S2N_ERR_CERT_REVOKED = S2N_ERR_CERT_UNTRUSTED + 1"

definition S2N_ERR_CERT_NOT_YET_VALID :: s2n_error where
  "S2N_ERR_CERT_NOT_YET_VALID = S2N_ERR_CERT_REVOKED + 1"

definition S2N_ERR_CERT_EXPIRED :: s2n_error where
  "S2N_ERR_CERT_EXPIRED = S2N_ERR_CERT_NOT_YET_VALID + 1"

definition S2N_ERR_CERT_TYPE_UNSUPPORTED :: s2n_error where
  "S2N_ERR_CERT_TYPE_UNSUPPORTED = S2N_ERR_CERT_EXPIRED + 1"

definition S2N_ERR_CERT_INVALID :: s2n_error where
  "S2N_ERR_CERT_INVALID = S2N_ERR_CERT_TYPE_UNSUPPORTED + 1"

definition S2N_ERR_CERT_MAX_CHAIN_DEPTH_EXCEEDED :: s2n_error where
  "S2N_ERR_CERT_MAX_CHAIN_DEPTH_EXCEEDED = S2N_ERR_CERT_INVALID + 1"

definition S2N_ERR_CERT_REJECTED :: s2n_error where
  "S2N_ERR_CERT_REJECTED = S2N_ERR_CERT_MAX_CHAIN_DEPTH_EXCEEDED + 1"

definition S2N_ERR_CRL_LOOKUP_FAILED :: s2n_error where
  "S2N_ERR_CRL_LOOKUP_FAILED = S2N_ERR_CERT_REJECTED + 1"

definition S2N_ERR_CRL_SIGNATURE :: s2n_error where
  "S2N_ERR_CRL_SIGNATURE = S2N_ERR_CRL_LOOKUP_FAILED + 1"

definition S2N_ERR_CRL_ISSUER :: s2n_error where
  "S2N_ERR_CRL_ISSUER = S2N_ERR_CRL_SIGNATURE + 1"

definition S2N_ERR_CRL_UNHANDLED_CRITICAL_EXTENSION :: s2n_error where
  "S2N_ERR_CRL_UNHANDLED_CRITICAL_EXTENSION = S2N_ERR_CRL_ISSUER + 1"

definition S2N_ERR_CRL_INVALID_THIS_UPDATE :: s2n_error where
  "S2N_ERR_CRL_INVALID_THIS_UPDATE = S2N_ERR_CRL_UNHANDLED_CRITICAL_EXTENSION + 1"

definition S2N_ERR_CRL_INVALID_NEXT_UPDATE :: s2n_error where
  "S2N_ERR_CRL_INVALID_NEXT_UPDATE = S2N_ERR_CRL_INVALID_THIS_UPDATE + 1"

definition S2N_ERR_CRL_NOT_YET_VALID :: s2n_error where
  "S2N_ERR_CRL_NOT_YET_VALID = S2N_ERR_CRL_INVALID_NEXT_UPDATE + 1"

definition S2N_ERR_CRL_EXPIRED :: s2n_error where
  "S2N_ERR_CRL_EXPIRED = S2N_ERR_CRL_NOT_YET_VALID + 1"

definition S2N_ERR_INVALID_MAX_FRAG_LEN :: s2n_error where
  "S2N_ERR_INVALID_MAX_FRAG_LEN = S2N_ERR_CRL_EXPIRED + 1"

definition S2N_ERR_MAX_FRAG_LEN_MISMATCH :: s2n_error where
  "S2N_ERR_MAX_FRAG_LEN_MISMATCH = S2N_ERR_INVALID_MAX_FRAG_LEN + 1"

definition S2N_ERR_PROTOCOL_VERSION_UNSUPPORTED :: s2n_error where
  "S2N_ERR_PROTOCOL_VERSION_UNSUPPORTED = S2N_ERR_MAX_FRAG_LEN_MISMATCH + 1"

definition S2N_ERR_BAD_KEY_SHARE :: s2n_error where
  "S2N_ERR_BAD_KEY_SHARE = S2N_ERR_PROTOCOL_VERSION_UNSUPPORTED + 1"

definition S2N_ERR_CANCELLED :: s2n_error where
  "S2N_ERR_CANCELLED = S2N_ERR_BAD_KEY_SHARE + 1"

definition S2N_ERR_PROTOCOL_DOWNGRADE_DETECTED :: s2n_error where
  "S2N_ERR_PROTOCOL_DOWNGRADE_DETECTED = S2N_ERR_CANCELLED + 1"

definition S2N_ERR_MAX_INNER_PLAINTEXT_SIZE :: s2n_error where
  "S2N_ERR_MAX_INNER_PLAINTEXT_SIZE = S2N_ERR_PROTOCOL_DOWNGRADE_DETECTED + 1"

definition S2N_ERR_RECORD_STUFFER_SIZE :: s2n_error where
  "S2N_ERR_RECORD_STUFFER_SIZE = S2N_ERR_MAX_INNER_PLAINTEXT_SIZE + 1"

definition S2N_ERR_FRAGMENT_LENGTH_TOO_LARGE :: s2n_error where
  "S2N_ERR_FRAGMENT_LENGTH_TOO_LARGE = S2N_ERR_RECORD_STUFFER_SIZE + 1"

definition S2N_ERR_FRAGMENT_LENGTH_TOO_SMALL :: s2n_error where
  "S2N_ERR_FRAGMENT_LENGTH_TOO_SMALL = S2N_ERR_FRAGMENT_LENGTH_TOO_LARGE + 1"

definition S2N_ERR_RECORD_STUFFER_NEEDS_DRAINING :: s2n_error where
  "S2N_ERR_RECORD_STUFFER_NEEDS_DRAINING = S2N_ERR_FRAGMENT_LENGTH_TOO_SMALL + 1"

definition S2N_ERR_MISSING_EXTENSION :: s2n_error where
  "S2N_ERR_MISSING_EXTENSION = S2N_ERR_RECORD_STUFFER_NEEDS_DRAINING + 1"

definition S2N_ERR_UNSUPPORTED_EXTENSION :: s2n_error where
  "S2N_ERR_UNSUPPORTED_EXTENSION = S2N_ERR_MISSING_EXTENSION + 1"

definition S2N_ERR_DUPLICATE_EXTENSION :: s2n_error where
  "S2N_ERR_DUPLICATE_EXTENSION = S2N_ERR_UNSUPPORTED_EXTENSION + 1"

definition S2N_ERR_MAX_EARLY_DATA_SIZE :: s2n_error where
  "S2N_ERR_MAX_EARLY_DATA_SIZE = S2N_ERR_DUPLICATE_EXTENSION + 1"

definition S2N_ERR_EARLY_DATA_TRIAL_DECRYPT :: s2n_error where
  "S2N_ERR_EARLY_DATA_TRIAL_DECRYPT = S2N_ERR_MAX_EARLY_DATA_SIZE + 1"

definition S2N_ERR_NO_RENEGOTIATION :: s2n_error where
  "S2N_ERR_NO_RENEGOTIATION = S2N_ERR_EARLY_DATA_TRIAL_DECRYPT + 1"

definition S2N_ERR_KTLS_KEYUPDATE :: s2n_error where
  "S2N_ERR_KTLS_KEYUPDATE = S2N_ERR_NO_RENEGOTIATION + 1"

definition S2N_ERR_T_PROTO_END :: s2n_error where
  "S2N_ERR_T_PROTO_END = S2N_ERR_KTLS_KEYUPDATE + 1"

text \<open>The error values of the PROTO block, in declaration order, without the sentinel.\<close>

definition s2n_err_t_proto_values :: "s2n_error list" where
  "s2n_err_t_proto_values =
    [
     S2N_ERR_ENCRYPT, S2N_ERR_DECRYPT, S2N_ERR_BAD_MESSAGE,
     S2N_ERR_UNEXPECTED_CERT_REQUEST, S2N_ERR_KEY_INIT, S2N_ERR_KEY_DESTROY,
     S2N_ERR_DH_SERIALIZING, S2N_ERR_DH_SHARED_SECRET, S2N_ERR_DH_WRITING_PUBLIC_KEY,
     S2N_ERR_DH_FAILED_SIGNING, S2N_ERR_DH_COPYING_PARAMETERS,
     S2N_ERR_DH_GENERATING_PARAMETERS, S2N_ERR_CIPHER_NOT_SUPPORTED,
     S2N_ERR_NO_APPLICATION_PROTOCOL, S2N_ERR_FALLBACK_DETECTED,
     S2N_ERR_HASH_DIGEST_FAILED, S2N_ERR_HASH_INIT_FAILED, S2N_ERR_HASH_UPDATE_FAILED,
     S2N_ERR_HASH_COPY_FAILED, S2N_ERR_HASH_WIPE_FAILED, S2N_ERR_HASH_NOT_READY,
     S2N_ERR_ALLOW_MD5_FOR_FIPS_FAILED, S2N_ERR_DECODE_CERTIFICATE,
     S2N_ERR_DECODE_PRIVATE_KEY, S2N_ERR_INVALID_HELLO_RETRY,
     S2N_ERR_INVALID_SIGNATURE_ALGORITHM, S2N_ERR_INVALID_SIGNATURE_SCHEME,
     S2N_ERR_NO_VALID_SIGNATURE_SCHEME, S2N_ERR_CBC_VERIFY, S2N_ERR_DH_COPYING_PUBLIC_KEY,
     S2N_ERR_SIGN, S2N_ERR_VERIFY_SIGNATURE, S2N_ERR_ECDHE_GEN_KEY,
     S2N_ERR_ECDHE_SHARED_SECRET, S2N_ERR_ECDHE_UNSUPPORTED_CURVE,
     S2N_ERR_ECDSA_UNSUPPORTED_CURVE, S2N_ERR_ECDHE_SERIALIZING,
     S2N_ERR_KEM_UNSUPPORTED_PARAMS, S2N_ERR_SHUTDOWN_RECORD_TYPE, S2N_ERR_SHUTDOWN_CLOSED,
     S2N_ERR_NON_EMPTY_RENEGOTIATION_INFO, S2N_ERR_RECORD_LIMIT, S2N_ERR_CERT_UNTRUSTED,
     S2N_ERR_CERT_REVOKED, S2N_ERR_CERT_NOT_YET_VALID, S2N_ERR_CERT_EXPIRED,
     S2N_ERR_CERT_TYPE_UNSUPPORTED, S2N_ERR_CERT_INVALID,
     S2N_ERR_CERT_MAX_CHAIN_DEPTH_EXCEEDED, S2N_ERR_CERT_REJECTED,
     S2N_ERR_CRL_LOOKUP_FAILED, S2N_ERR_CRL_SIGNATURE, S2N_ERR_CRL_ISSUER,
     S2N_ERR_CRL_UNHANDLED_CRITICAL_EXTENSION, S2N_ERR_CRL_INVALID_THIS_UPDATE,
     S2N_ERR_CRL_INVALID_NEXT_UPDATE, S2N_ERR_CRL_NOT_YET_VALID, S2N_ERR_CRL_EXPIRED,
     S2N_ERR_INVALID_MAX_FRAG_LEN, S2N_ERR_MAX_FRAG_LEN_MISMATCH,
     S2N_ERR_PROTOCOL_VERSION_UNSUPPORTED, S2N_ERR_BAD_KEY_SHARE, S2N_ERR_CANCELLED,
     S2N_ERR_PROTOCOL_DOWNGRADE_DETECTED, S2N_ERR_MAX_INNER_PLAINTEXT_SIZE,
     S2N_ERR_RECORD_STUFFER_SIZE, S2N_ERR_FRAGMENT_LENGTH_TOO_LARGE,
     S2N_ERR_FRAGMENT_LENGTH_TOO_SMALL, S2N_ERR_RECORD_STUFFER_NEEDS_DRAINING,
     S2N_ERR_MISSING_EXTENSION, S2N_ERR_UNSUPPORTED_EXTENSION, S2N_ERR_DUPLICATE_EXTENSION,
     S2N_ERR_MAX_EARLY_DATA_SIZE, S2N_ERR_EARLY_DATA_TRIAL_DECRYPT,
     S2N_ERR_NO_RENEGOTIATION, S2N_ERR_KTLS_KEYUPDATE]"

section \<open>Translation of errors to alerts (tls/s2n_alerts.c)\<close>

text \<open>
  Modelled from the spec: the alert descriptions are declared in tls/s2n_alerts.h, which is
  not among the sources. The spec's data model gives the codes close_notify = 0,
  unexpected_message = 10, handshake_failure = 40, internal_error = 80,
  user_canceled = 90, no_renegotiation = 100 and missing_extension = 109, and the length
  of an alert, 2 bytes. (In one place the spec writes 60 beside internal_error; the data
  model's 80 is the code that TLS assigns to it.)
\<close>

definition S2N_TLS_ALERT_CLOSE_NOTIFY :: "8 word" where
  "S2N_TLS_ALERT_CLOSE_NOTIFY = 0"

definition S2N_TLS_ALERT_UNEXPECTED_MESSAGE :: "8 word" where
  "S2N_TLS_ALERT_UNEXPECTED_MESSAGE = 10"

definition S2N_TLS_ALERT_HANDSHAKE_FAILURE :: "8 word" where
  "S2N_TLS_ALERT_HANDSHAKE_FAILURE = 40"

definition S2N_TLS_ALERT_INTERNAL_ERROR :: "8 word" where
  "S2N_TLS_ALERT_INTERNAL_ERROR = 80"

definition S2N_TLS_ALERT_USER_CANCELED :: "8 word" where
  "S2N_TLS_ALERT_USER_CANCELED = 90"

definition S2N_TLS_ALERT_NO_RENEGOTIATION :: "8 word" where
  "S2N_TLS_ALERT_NO_RENEGOTIATION = 100"

definition S2N_TLS_ALERT_MISSING_EXTENSION :: "8 word" where
  "S2N_TLS_ALERT_MISSING_EXTENSION = 109"

definition S2N_ALERT_LENGTH :: nat where
  "S2N_ALERT_LENGTH = 2"

definition S2N_TLS_ALERT_LEVEL_WARNING :: "8 word" where
  "S2N_TLS_ALERT_LEVEL_WARNING = 1"

definition S2N_TLS_ALERT_LEVEL_FATAL :: "8 word" where
  "S2N_TLS_ALERT_LEVEL_FATAL = 2"

text \<open>
  The case labels of the \<open>S2N_NO_ALERT\<close> macro in
  \<open>s2n_translate_protocol_error_to_alert\<close>, in the order of the source.
\<close>

definition S2N_NO_ALERT_cases :: "s2n_error list" where
  "S2N_NO_ALERT_cases =
    [
     S2N_ERR_ENCRYPT, S2N_ERR_DECRYPT, S2N_ERR_KEY_INIT, S2N_ERR_KEY_DESTROY,
     S2N_ERR_DH_SERIALIZING, S2N_ERR_DH_SHARED_SECRET, S2N_ERR_DH_WRITING_PUBLIC_KEY,
     S2N_ERR_DH_FAILED_SIGNING, S2N_ERR_DH_COPYING_PARAMETERS,
     S2N_ERR_DH_GENERATING_PARAMETERS, S2N_ERR_CIPHER_NOT_SUPPORTED,
     S2N_ERR_NO_APPLICATION_PROTOCOL, S2N_ERR_FALLBACK_DETECTED,
     S2N_ERR_HASH_DIGEST_FAILED, S2N_ERR_HASH_INIT_FAILED, S2N_ERR_HASH_UPDATE_FAILED,
     S2N_ERR_HASH_COPY_FAILED, S2N_ERR_HASH_WIPE_FAILED, S2N_ERR_HASH_NOT_READY,
     S2N_ERR_ALLOW_MD5_FOR_FIPS_FAILED, S2N_ERR_DECODE_CERTIFICATE,
     S2N_ERR_DECODE_PRIVATE_KEY, S2N_ERR_INVALID_HELLO_RETRY,
     S2N_ERR_INVALID_SIGNATURE_ALGORITHM, S2N_ERR_INVALID_SIGNATURE_SCHEME,
     S2N_ERR_CBC_VERIFY, S2N_ERR_DH_COPYING_PUBLIC_KEY, S2N_ERR_SIGN,
     S2N_ERR_VERIFY_SIGNATURE, S2N_ERR_ECDHE_GEN_KEY, S2N_ERR_ECDHE_SHARED_SECRET,
     S2N_ERR_ECDHE_UNSUPPORTED_CURVE, S2N_ERR_ECDSA_UNSUPPORTED_CURVE,
     S2N_ERR_ECDHE_SERIALIZING, S2N_ERR_KEM_UNSUPPORTED_PARAMS,
     S2N_ERR_SHUTDOWN_RECORD_TYPE, S2N_ERR_SHUTDOWN_CLOSED,
     S2N_ERR_NON_EMPTY_RENEGOTIATION_INFO, S2N_ERR_RECORD_LIMIT, S2N_ERR_CERT_UNTRUSTED,
     S2N_ERR_CERT_REVOKED, S2N_ERR_CERT_EXPIRED, S2N_ERR_CERT_TYPE_UNSUPPORTED,
     S2N_ERR_CERT_INVALID, S2N_ERR_CERT_MAX_CHAIN_DEPTH_EXCEEDED,
     S2N_ERR_CRL_LOOKUP_FAILED, S2N_ERR_CRL_SIGNATURE, S2N_ERR_CRL_ISSUER,
     S2N_ERR_CRL_UNHANDLED_CRITICAL_EXTENSION, S2N_ERR_INVALID_MAX_FRAG_LEN,
     S2N_ERR_MAX_FRAG_LEN_MISMATCH, S2N_ERR_PROTOCOL_VERSION_UNSUPPORTED,
     S2N_ERR_BAD_KEY_SHARE, S2N_ERR_CANCELLED, S2N_ERR_PROTOCOL_DOWNGRADE_DETECTED,
     S2N_ERR_MAX_INNER_PLAINTEXT_SIZE, S2N_ERR_RECORD_STUFFER_SIZE,
     S2N_ERR_FRAGMENT_LENGTH_TOO_LARGE, S2N_ERR_FRAGMENT_LENGTH_TOO_SMALL,
     S2N_ERR_RECORD_STUFFER_NEEDS_DRAINING, S2N_ERR_UNSUPPORTED_EXTENSION,
     S2N_ERR_DUPLICATE_EXTENSION, S2N_ERR_MAX_EARLY_DATA_SIZE,
     S2N_ERR_EARLY_DATA_TRIAL_DECRYPT]"

text \<open>
  An output parameter \<open>uint8_t *alert\<close> is an optional cell: \<open>None\<close> is the null
  pointer, \<open>Some v\<close> a cell that holds \<open>v\<close>. A function returns its result together
  with the cell as it leaves it; \<open>Inl e\<close> is a failure that raised the error \<open>e\<close>.

  Modelled from the spec: the guard macros (\<open>POSIX_ENSURE_REF\<close>, \<open>RESULT_ENSURE_EQ\<close>,
  \<open>POSIX_BAIL\<close>, \<open>POSIX_GUARD\<close> and their kin) are defined in utils/s2n_ensure.h and
  utils/s2n_safety.h, which are not among the sources. The spec describes them as
  raise-and-return: the error is raised and the function returns at once; a guard around a
  call passes the callee's failure on. A null reference raises \<open>S2N_ERR_NULL\<close> and a
  failed equality check \<open>S2N_ERR_SAFETY\<close>, the registry's errors for the two.
\<close>

definition s2n_translate_protocol_error_to_alert ::
    "s2n_error \<Rightarrow> 8 word option \<Rightarrow> (s2n_error + unit) \<times> 8 word option" where
  "s2n_translate_protocol_error_to_alert error_code alert =
    (case alert of
       None \<Rightarrow> (Inl S2N_ERR_NULL, None)
     | Some old \<Rightarrow>
         if error_code = S2N_ERR_MISSING_EXTENSION
           then (Inr (), Some S2N_TLS_ALERT_MISSING_EXTENSION)
         else if error_code = S2N_ERR_BAD_MESSAGE
           then (Inr (), Some S2N_TLS_ALERT_UNEXPECTED_MESSAGE)
         else if error_code = S2N_ERR_NO_RENEGOTIATION
           then (Inr (), Some S2N_TLS_ALERT_HANDSHAKE_FAILURE)
         else if error_code \<in> set S2N_NO_ALERT_cases
           then (Inl S2N_ERR_NO_ALERT, Some old)
         else (Inl S2N_ERR_UNIMPLEMENTED, Some old))"

text \<open>
  The switch of \<open>s2n_error_get_alert\<close> has no default branch: an error type that is
  none of the eight labels leaves the switch and reaches \<open>return S2N_SUCCESS\<close>.
\<close>

definition s2n_error_get_alert ::
    "s2n_error \<Rightarrow> 8 word option \<Rightarrow> (s2n_error + unit) \<times> 8 word option" where
  "s2n_error_get_alert error alert =
    (let error_type = s2n_error_get_type error in
     case alert of
       None \<Rightarrow> (Inl S2N_ERR_NULL, None)
     | Some old \<Rightarrow>
         if error_type = S2N_ERR_T_OK \<or> error_type = S2N_ERR_T_CLOSED
            \<or> error_type = S2N_ERR_T_BLOCKED \<or> error_type = S2N_ERR_T_USAGE
            \<or> error_type = S2N_ERR_T_ALERT
           then (Inl S2N_ERR_NO_ALERT, Some old)
         else if error_type = S2N_ERR_T_PROTO
           then (case s2n_translate_protocol_error_to_alert error alert of
                   (Inl e, alert') \<Rightarrow> (Inl e, alert')
                 | (Inr u, alert') \<Rightarrow> (Inr (), alert'))
         else if error_type = S2N_ERR_T_IO \<or> error_type = S2N_ERR_T_INTERNAL
           then (Inr (), Some S2N_TLS_ALERT_INTERNAL_ERROR)
         else (Inr (), Some old))"

section \<open>The connection, as the alert code sees it\<close>

text \<open>
  Modelled from the spec: the byte buffer (\<open>struct s2n_stuffer\<close>, stuffer/s2n_stuffer.h)
  is not among the sources; the spec assumes a byte-buffer abstraction with the bytes
  available for reading. A stuffer is the list of its unread bytes. The alert buffers of
  a connection are backed by arrays of \<open>S2N_ALERT_LENGTH\<close> bytes and nothing in the
  alert code reads from them through the stuffer, so their unread bytes start at index 0
  of the array, and a write that does not fit the array fails.
\<close>

type_synonym s2n_stuffer = "8 word list"

definition s2n_stuffer_data_available :: "s2n_stuffer \<Rightarrow> nat" where
  "s2n_stuffer_data_available stuffer = length stuffer"

definition s2n_stuffer_copy ::
    "s2n_stuffer \<Rightarrow> s2n_stuffer \<Rightarrow> nat \<Rightarrow> s2n_error + (s2n_stuffer \<times> s2n_stuffer)" where
  "s2n_stuffer_copy from_stuffer to_stuffer len =
    (if s2n_stuffer_data_available from_stuffer < len then Inl S2N_ERR_STUFFER_OUT_OF_DATA
     else if S2N_ALERT_LENGTH < s2n_stuffer_data_available to_stuffer + len
       then Inl S2N_ERR_STUFFER_IS_FULL
     else Inr (drop len from_stuffer, to_stuffer @ take len from_stuffer))"

definition s2n_stuffer_wipe :: "s2n_stuffer \<Rightarrow> s2n_error + s2n_stuffer" where
  "s2n_stuffer_wipe stuffer = Inr []"

definition s2n_stuffer_write :: "s2n_stuffer \<Rightarrow> 8 word list \<Rightarrow> s2n_error + s2n_stuffer" where
  "s2n_stuffer_write stuffer blob =
    (if S2N_ALERT_LENGTH < s2n_stuffer_data_available stuffer + length blob
       then Inl S2N_ERR_STUFFER_IS_FULL
     else Inr (stuffer @ blob))"

text \<open>
  Modelled from the spec: \<open>struct s2n_config\<close> and \<open>struct s2n_connection\<close> are
  declared in tls/s2n_config.h and tls/s2n_connection.h, which are not among the sources.
  The fields are the ones \<open>s2n_alerts.c\<close> reads and writes. The spec lists what the
  connection exposes: the alert behavior (default or ignore warnings), the protocol
  version, whether QUIC manages alerting, whether caching is allowed, the flags, the
  session id and the cache-delete callback.

  The callback \<open>cache_delete\<close> belongs to the application. It receives the
  application's cache data, the key and the key size, and returns a status and the cache
  data as it leaves them.
\<close>

datatype s2n_alert_behavior = S2N_ALERT_FAIL_ON_WARNINGS | S2N_ALERT_IGNORE_WARNINGS

record 'd s2n_config =
  alert_behavior :: s2n_alert_behavior
  cache_delete :: "'d \<Rightarrow> 8 word list \<Rightarrow> nat \<Rightarrow> int \<times> 'd"
  cache_delete_data :: 'd

record 'd s2n_connection =
  config :: "'d s2n_config"
  quic_enabled :: bool
  protocol_version :: nat
  caching_allowed :: bool
  conn_in :: s2n_stuffer
  alert_in :: s2n_stuffer
  writer_alert_out :: s2n_stuffer
  reader_alert_out :: s2n_stuffer
  closed :: bool
  closing :: bool
  close_notify_received :: bool
  close_notify_queued :: bool
  session_id :: "8 word list"
  session_id_len :: "8 word"

text \<open>The array \<open>alert_in_data\<close> is the storage of the stuffer \<open>alert_in\<close>.\<close>

definition alert_in_data :: "'d s2n_connection \<Rightarrow> 8 word list" where
  "alert_in_data conn = alert_in conn"

text \<open>
  Modelled from the spec: the protocol versions are declared in api/s2n.h and the
  accessors of the connection in tls/s2n_connection.c, tls/s2n_quic_support.c and
  tls/s2n_resume.c, none of them among the sources. The versions are numbered as on the
  wire: major * 10 + minor, which gives SSLv3 = 30 and TLS 1.3 = 34.
\<close>

definition S2N_SSLv3 :: nat where
  "S2N_SSLv3 = 30"

definition S2N_TLS13 :: nat where
  "S2N_TLS13 = 34"

definition s2n_connection_get_protocol_version :: "'d s2n_connection \<Rightarrow> nat" where
  "s2n_connection_get_protocol_version conn = protocol_version conn"

definition s2n_connection_is_quic_enabled :: "'d s2n_connection \<Rightarrow> bool" where
  "s2n_connection_is_quic_enabled conn = quic_enabled conn"

definition s2n_allowed_to_cache_connection :: "'d s2n_connection \<Rightarrow> bool" where
  "s2n_allowed_to_cache_connection conn = caching_allowed conn"

section \<open>The alert protocol (tls/s2n_alerts.c)\<close>

definition s2n_alerts_supported :: "'d s2n_connection \<Rightarrow> bool" where
  "s2n_alerts_supported conn = (\<not> s2n_connection_is_quic_enabled conn)"

definition s2n_process_as_warning :: "'d s2n_connection \<Rightarrow> 8 word \<Rightarrow> 8 word \<Rightarrow> bool" where
  "s2n_process_as_warning conn level type =
    (if s2n_connection_get_protocol_version conn < S2N_TLS13
       then level = S2N_TLS_ALERT_LEVEL_WARNING
            \<and> alert_behavior (config conn) = S2N_ALERT_IGNORE_WARNINGS
     else type = S2N_TLS_ALERT_USER_CANCELED)"

text \<open>
  A pointer to a connection or to a blob is an optional value, \<open>None\<close> being the null
  pointer. A blob is the list of its bytes and its size their number. A function returns
  its result together with the connection as it leaves it, also when it fails.
\<close>

definition s2n_alerts_close_if_fatal ::
    "'d s2n_connection option \<Rightarrow> 8 word list option
      \<Rightarrow> (s2n_error + unit) \<times> 'd s2n_connection option" where
  "s2n_alerts_close_if_fatal conn alert =
    (case conn of
       None \<Rightarrow> (Inl S2N_ERR_NULL, None)
     | Some c \<Rightarrow>
        (case alert of
           None \<Rightarrow> (Inl S2N_ERR_NULL, Some c)
         | Some blob \<Rightarrow>
             if length blob \<noteq> S2N_ALERT_LENGTH then (Inl S2N_ERR_SAFETY, Some c)
             else if blob ! 1 = S2N_TLS_ALERT_NO_RENEGOTIATION
               then (if blob ! 0 \<noteq> S2N_TLS_ALERT_LEVEL_WARNING
                       then (Inl S2N_ERR_SAFETY, Some c)
                     else (Inr (), Some c))
             else (Inr (), Some (c\<lparr>closing := True\<rparr>))))"

text \<open>
  The body of \<open>if (s2n_stuffer_data_available(&conn->alert_in) == 2)\<close> in the loop of
  \<open>s2n_process_alert_fragment\<close>: what is done with a complete alert. The status that
  \<open>cache_delete\<close> returns is not looked at.
\<close>

definition s2n_process_alert_fragment_dispatch ::
    "'d s2n_connection \<Rightarrow> (s2n_error + unit) \<times> 'd s2n_connection" where
  "s2n_process_alert_fragment_dispatch conn =
    (if alert_in_data conn ! 1 = S2N_TLS_ALERT_CLOSE_NOTIFY
       then (Inr (), conn\<lparr>closed := True, close_notify_received := True\<rparr>)
     else if s2n_process_as_warning conn (alert_in_data conn ! 0) (alert_in_data conn ! 1)
       then (case s2n_stuffer_wipe (alert_in conn) of
               Inl e \<Rightarrow> (Inl e, conn)
             | Inr wiped \<Rightarrow> (Inr (), conn\<lparr>alert_in := wiped\<rparr>))
     else
       (let conn' =
          (if s2n_allowed_to_cache_connection conn \<and> session_id_len conn \<noteq> 0
             then (case cache_delete (config conn) (cache_delete_data (config conn))
                          (session_id conn) (unat (session_id_len conn)) of
                     (status, data') \<Rightarrow>
                       conn\<lparr>config := (config conn)\<lparr>cache_delete_data := data'\<rparr>\<rparr>)
           else conn)
        in (Inl S2N_ERR_ALERT, conn'\<lparr>closed := True\<rparr>)))"

text \<open>The \<open>while\<close> loop of \<open>s2n_process_alert_fragment\<close>.\<close>

function s2n_process_alert_fragment_loop ::
    "'d s2n_connection \<Rightarrow> (s2n_error + unit) \<times> 'd s2n_connection" where
  "s2n_process_alert_fragment_loop conn =
    (if s2n_stuffer_data_available (conn_in conn) = 0 then (Inr (), conn)
     else
       (let bytes_required =
              (if s2n_stuffer_data_available (alert_in conn) = 1 then 1 else 2 :: nat);
            bytes_to_read = min bytes_required (s2n_stuffer_data_available (conn_in conn))
        in case s2n_stuffer_copy (conn_in conn) (alert_in conn) bytes_to_read of
             Inl e \<Rightarrow> (Inl e, conn)
           | Inr (in', alert_in') \<Rightarrow>
               (let conn' = conn\<lparr>conn_in := in', alert_in := alert_in'\<rparr>
                in if s2n_stuffer_data_available (alert_in conn') = 2
                     then s2n_process_alert_fragment_dispatch conn'
                   else s2n_process_alert_fragment_loop conn')))"
  by pat_completeness auto
termination
  by (relation "measure (\<lambda>conn. length (conn_in conn))")
     (auto simp: s2n_stuffer_copy_def s2n_stuffer_data_available_def split: if_splits)

declare s2n_process_alert_fragment_loop.simps [simp del]

definition s2n_process_alert_fragment ::
    "'d s2n_connection option \<Rightarrow> (s2n_error + unit) \<times> 'd s2n_connection option" where
  "s2n_process_alert_fragment conn =
    (case conn of
       None \<Rightarrow> (Inl S2N_ERR_NULL, None)
     | Some c \<Rightarrow>
         if s2n_stuffer_data_available (conn_in c) = 0 then (Inl S2N_ERR_BAD_MESSAGE, Some c)
         else if s2n_stuffer_data_available (alert_in c) = 2
           then (Inl S2N_ERR_ALERT_PRESENT, Some c)
         else if \<not> s2n_alerts_supported c then (Inl S2N_ERR_BAD_MESSAGE, Some c)
         else (case s2n_process_alert_fragment_loop c of (r, c') \<Rightarrow> (r, Some c')))"

definition s2n_queue_writer_close_alert_warning ::
    "'d s2n_connection option \<Rightarrow> (s2n_error + unit) \<times> 'd s2n_connection option" where
  "s2n_queue_writer_close_alert_warning conn =
    (case conn of
       None \<Rightarrow> (Inl S2N_ERR_NULL, None)
     | Some c \<Rightarrow>
        (let out = [S2N_TLS_ALERT_LEVEL_WARNING, S2N_TLS_ALERT_CLOSE_NOTIFY]
         in if s2n_stuffer_data_available (writer_alert_out c) \<noteq> 0 \<or> close_notify_queued c
              then (Inr (), Some c)
            else if \<not> s2n_alerts_supported c then (Inr (), Some c)
            else (case s2n_stuffer_write (writer_alert_out c) out of
                    Inl e \<Rightarrow> (Inl e, Some c)
                  | Inr written \<Rightarrow>
                      (Inr (), Some (c\<lparr>writer_alert_out := written,
                                         close_notify_queued := True\<rparr>)))))"

text \<open>
  Modelled from the spec: the caller of \<open>s2n_process_alert_fragment\<close> (the receive
  loop, tls/s2n_recv.c) is not among the sources. The spec's fragmentation property feeds
  inbound processing one delivery of bytes after another: each delivery becomes the
  available input of the connection and is processed by one call, and a failing call ends
  the sequence, as the caller's guard does.
\<close>

fun s2n_process_alert_fragments ::
    "'d s2n_connection \<Rightarrow> 8 word list list \<Rightarrow> (s2n_error + unit) \<times> 'd s2n_connection option" where
  "s2n_process_alert_fragments conn [] = (Inr (), Some conn)"
| "s2n_process_alert_fragments conn (fragment # fragments) =
    (case s2n_process_alert_fragment (Some (conn\<lparr>conn_in := fragment\<rparr>)) of
       (Inl e, conn') \<Rightarrow> (Inl e, conn')
     | (Inr u, None) \<Rightarrow> (Inr (), None)
     | (Inr u, Some conn') \<Rightarrow> s2n_process_alert_fragments conn' fragments)"

section \<open>A connection for the examples\<close>

text \<open>
  The examples run on a TLS 1.2 connection (version 33) that ignores warnings, may be
  cached and holds a session id of 2 bytes. Its session cache is a list of keys; its
  \<open>cache_delete\<close> removes the key and always reports a failure.
\<close>

definition example_cache_delete ::
    "8 word list list \<Rightarrow> 8 word list \<Rightarrow> nat \<Rightarrow> int \<times> 8 word list list" where
  "example_cache_delete cache key key_size = (- 1, removeAll (take key_size key) cache)"

definition example_config :: "8 word list list s2n_config" where
  "example_config =
    \<lparr>alert_behavior = S2N_ALERT_IGNORE_WARNINGS,
     cache_delete = example_cache_delete,
     cache_delete_data = [[1, 2, 3], [4, 5]]\<rparr>"

definition example_conn :: "8 word list list s2n_connection" where
  "example_conn =
    \<lparr>config = example_config,
     quic_enabled = False,
     protocol_version = 33,
     caching_allowed = True,
     conn_in = [],
     alert_in = [],
     writer_alert_out = [],
     reader_alert_out = [],
     closed = False,
     closing = False,
     close_notify_received = False,
     close_notify_queued = False,
     session_id = [4, 5, 0, 0],
     session_id_len = 2\<rparr>"

section \<open>Basic facts\<close>

lemmas s2n_err_t_defs =
  S2N_ERR_T_OK_def S2N_ERR_T_IO_def S2N_ERR_T_CLOSED_def S2N_ERR_T_BLOCKED_def
  S2N_ERR_T_ALERT_def S2N_ERR_T_PROTO_def S2N_ERR_T_INTERNAL_def S2N_ERR_T_USAGE_def

lemmas s2n_err_t_start_defs =
  S2N_ERR_T_OK_START_def S2N_ERR_T_IO_START_def S2N_ERR_T_CLOSED_START_def
  S2N_ERR_T_BLOCKED_START_def S2N_ERR_T_ALERT_START_def S2N_ERR_T_PROTO_START_def
  S2N_ERR_T_INTERNAL_START_def S2N_ERR_T_USAGE_START_def S2N_ERR_NUM_VALUE_BITS_def

lemmas s2n_err_misc_defs =
  S2N_ERR_OK_def S2N_ERR_IO_def S2N_ERR_CLOSED_def S2N_ERR_IO_BLOCKED_def S2N_ERR_ALERT_def
  S2N_ERR_MADVISE_def S2N_ERR_NULL_def S2N_ERR_SAFETY_def S2N_ERR_STUFFER_OUT_OF_DATA_def
  S2N_ERR_STUFFER_IS_FULL_def S2N_ERR_ALERT_PRESENT_def S2N_ERR_UNIMPLEMENTED_def
  S2N_ERR_NO_ALERT_def

lemmas s2n_err_t_proto_defs =
  S2N_ERR_ENCRYPT_def S2N_ERR_DECRYPT_def S2N_ERR_BAD_MESSAGE_def
  S2N_ERR_UNEXPECTED_CERT_REQUEST_def S2N_ERR_KEY_INIT_def S2N_ERR_KEY_DESTROY_def
  S2N_ERR_DH_SERIALIZING_def S2N_ERR_DH_SHARED_SECRET_def
  S2N_ERR_DH_WRITING_PUBLIC_KEY_def S2N_ERR_DH_FAILED_SIGNING_def
  S2N_ERR_DH_COPYING_PARAMETERS_def S2N_ERR_DH_GENERATING_PARAMETERS_def
  S2N_ERR_CIPHER_NOT_SUPPORTED_def S2N_ERR_NO_APPLICATION_PROTOCOL_def
  S2N_ERR_FALLBACK_DETECTED_def S2N_ERR_HASH_DIGEST_FAILED_def
  S2N_ERR_HASH_INIT_FAILED_def S2N_ERR_HASH_UPDATE_FAILED_def
  S2N_ERR_HASH_COPY_FAILED_def S2N_ERR_HASH_WIPE_FAILED_def S2N_ERR_HASH_NOT_READY_def
  S2N_ERR_ALLOW_MD5_FOR_FIPS_FAILED_def S2N_ERR_DECODE_CERTIFICATE_def
  S2N_ERR_DECODE_PRIVATE_KEY_def S2N_ERR_INVALID_HELLO_RETRY_def
  S2N_ERR_INVALID_SIGNATURE_ALGORITHM_def S2N_ERR_INVALID_SIGNATURE_SCHEME_def
  S2N_ERR_NO_VALID_SIGNATURE_SCHEME_def S2N_ERR_CBC_VERIFY_def
  S2N_ERR_DH_COPYING_PUBLIC_KEY_def S2N_ERR_SIGN_def S2N_ERR_VERIFY_SIGNATURE_def
  S2N_ERR_ECDHE_GEN_KEY_def S2N_ERR_ECDHE_SHARED_SECRET_def
  S2N_ERR_ECDHE_UNSUPPORTED_CURVE_def S2N_ERR_ECDSA_UNSUPPORTED_CURVE_def
  S2N_ERR_ECDHE_SERIALIZING_def S2N_ERR_KEM_UNSUPPORTED_PARAMS_def
  S2N_ERR_SHUTDOWN_RECORD_TYPE_def S2N_ERR_SHUTDOWN_CLOSED_def
  S2N_ERR_NON_EMPTY_RENEGOTIATION_INFO_def S2N_ERR_RECORD_LIMIT_def
  S2N_ERR_CERT_UNTRUSTED_def S2N_ERR_CERT_REVOKED_def S2N_ERR_CERT_NOT_YET_VALID_def
  S2N_ERR_CERT_EXPIRED_def S2N_ERR_CERT_TYPE_UNSUPPORTED_def S2N_ERR_CERT_INVALID_def
  S2N_ERR_CERT_MAX_CHAIN_DEPTH_EXCEEDED_def S2N_ERR_CERT_REJECTED_def
  S2N_ERR_CRL_LOOKUP_FAILED_def S2N_ERR_CRL_SIGNATURE_def S2N_ERR_CRL_ISSUER_def
  S2N_ERR_CRL_UNHANDLED_CRITICAL_EXTENSION_def S2N_ERR_CRL_INVALID_THIS_UPDATE_def
  S2N_ERR_CRL_INVALID_NEXT_UPDATE_def S2N_ERR_CRL_NOT_YET_VALID_def
  S2N_ERR_CRL_EXPIRED_def S2N_ERR_INVALID_MAX_FRAG_LEN_def
  S2N_ERR_MAX_FRAG_LEN_MISMATCH_def S2N_ERR_PROTOCOL_VERSION_UNSUPPORTED_def
  S2N_ERR_BAD_KEY_SHARE_def S2N_ERR_CANCELLED_def
  S2N_ERR_PROTOCOL_DOWNGRADE_DETECTED_def S2N_ERR_MAX_INNER_PLAINTEXT_SIZE_def
  S2N_ERR_RECORD_STUFFER_SIZE_def S2N_ERR_FRAGMENT_LENGTH_TOO_LARGE_def
  S2N_ERR_FRAGMENT_LENGTH_TOO_SMALL_def S2N_ERR_RECORD_STUFFER_NEEDS_DRAINING_def
  S2N_ERR_MISSING_EXTENSION_def S2N_ERR_UNSUPPORTED_EXTENSION_def
  S2N_ERR_DUPLICATE_EXTENSION_def S2N_ERR_MAX_EARLY_DATA_SIZE_def
  S2N_ERR_EARLY_DATA_TRIAL_DECRYPT_def S2N_ERR_NO_RENEGOTIATION_def
  S2N_ERR_KTLS_KEYUPDATE_def S2N_ERR_T_PROTO_END_def

lemmas s2n_tls_alert_defs =
  S2N_TLS_ALERT_CLOSE_NOTIFY_def S2N_TLS_ALERT_UNEXPECTED_MESSAGE_def
  S2N_TLS_ALERT_HANDSHAKE_FAILURE_def S2N_TLS_ALERT_INTERNAL_ERROR_def
  S2N_TLS_ALERT_USER_CANCELED_def S2N_TLS_ALERT_NO_RENEGOTIATION_def
  S2N_TLS_ALERT_MISSING_EXTENSION_def

lemmas s2n_err_all_defs =
  s2n_err_t_proto_defs s2n_err_misc_defs s2n_err_t_start_defs s2n_err_t_defs

lemma s2n_err_t_proto_values_type:
  "list_all (\<lambda>e. s2n_error_get_type e = S2N_ERR_T_PROTO) s2n_err_t_proto_values"
  unfolding s2n_err_t_proto_values_def
  by (simp add: s2n_error_get_type_def s2n_err_all_defs)

lemma s2n_err_t_proto_values_partition:
  "list_all (\<lambda>e.
     (e \<notin> {S2N_ERR_MISSING_EXTENSION, S2N_ERR_BAD_MESSAGE, S2N_ERR_NO_RENEGOTIATION}
              \<union> set S2N_NO_ALERT_cases)
     = (e \<in> {S2N_ERR_UNEXPECTED_CERT_REQUEST, S2N_ERR_NO_VALID_SIGNATURE_SCHEME,
          S2N_ERR_CERT_NOT_YET_VALID, S2N_ERR_CERT_REJECTED, S2N_ERR_CRL_INVALID_THIS_UPDATE,
          S2N_ERR_CRL_INVALID_NEXT_UPDATE, S2N_ERR_CRL_NOT_YET_VALID, S2N_ERR_CRL_EXPIRED,
          S2N_ERR_KTLS_KEYUPDATE})) s2n_err_t_proto_values"
  unfolding s2n_err_t_proto_values_def S2N_NO_ALERT_cases_def
  by (simp add: s2n_err_all_defs)

lemma mapped_not_in_no_alert_cases:
  "S2N_ERR_MISSING_EXTENSION \<notin> set S2N_NO_ALERT_cases"
  "S2N_ERR_BAD_MESSAGE \<notin> set S2N_NO_ALERT_cases"
  "S2N_ERR_NO_RENEGOTIATION \<notin> set S2N_NO_ALERT_cases"
  unfolding S2N_NO_ALERT_cases_def
  by (simp_all add: s2n_err_all_defs)

lemma mapped_distinct:
  "S2N_ERR_MISSING_EXTENSION \<noteq> S2N_ERR_BAD_MESSAGE"
  "S2N_ERR_MISSING_EXTENSION \<noteq> S2N_ERR_NO_RENEGOTIATION"
  "S2N_ERR_BAD_MESSAGE \<noteq> S2N_ERR_NO_RENEGOTIATION"
  "S2N_ERR_BAD_MESSAGE \<noteq> S2N_ERR_MISSING_EXTENSION"
  "S2N_ERR_NO_RENEGOTIATION \<noteq> S2N_ERR_MISSING_EXTENSION"
  "S2N_ERR_NO_RENEGOTIATION \<noteq> S2N_ERR_BAD_MESSAGE"
  by (simp_all add: s2n_err_all_defs)

section \<open>The translation table\<close>

text \<open>
  C3 (amended). The translation of protocol errors maps \<open>S2N_ERR_MISSING_EXTENSION\<close> to
  the missing_extension alert (109), \<open>S2N_ERR_BAD_MESSAGE\<close> to the unexpected_message
  alert (10) and \<open>S2N_ERR_NO_RENEGOTIATION\<close> to the handshake_failure alert (40). The
  other PROTOCOL-category codes do not all fail alike: a code listed under the
  \<open>S2N_NO_ALERT\<close> macro fails with the "no alert" error \<open>S2N_ERR_NO_ALERT\<close>, and only
  a code with no case label at all fails with the "unimplemented mapping" error
  \<open>S2N_ERR_UNIMPLEMENTED\<close>. In either case the output alert is left as it was. Of the
  error values that the enumeration declares in its PROTO block, the ones without a case
  label are exactly the nine named in the last part.
\<close>

theorem s2n_translate_protocol_error_to_alert_table:
  "s2n_translate_protocol_error_to_alert S2N_ERR_MISSING_EXTENSION (Some old) = (Inr (), Some 109)
   \<and> s2n_translate_protocol_error_to_alert S2N_ERR_BAD_MESSAGE (Some old) = (Inr (), Some 10)
   \<and> s2n_translate_protocol_error_to_alert S2N_ERR_NO_RENEGOTIATION (Some old) = (Inr (), Some 40)
   \<and> (error_code \<in> set S2N_NO_ALERT_cases \<longrightarrow>
        s2n_translate_protocol_error_to_alert error_code (Some old)
          = (Inl S2N_ERR_NO_ALERT, Some old))
   \<and> (s2n_error_get_type error_code = S2N_ERR_T_PROTO
        \<and> error_code \<notin> {S2N_ERR_MISSING_EXTENSION, S2N_ERR_BAD_MESSAGE,
                            S2N_ERR_NO_RENEGOTIATION} \<union> set S2N_NO_ALERT_cases \<longrightarrow>
        s2n_translate_protocol_error_to_alert error_code (Some old)
          = (Inl S2N_ERR_UNIMPLEMENTED, Some old))
   \<and> (error_code \<in> set s2n_err_t_proto_values \<longrightarrow>
        s2n_error_get_type error_code = S2N_ERR_T_PROTO
        \<and> (error_code \<notin> {S2N_ERR_MISSING_EXTENSION, S2N_ERR_BAD_MESSAGE,
                              S2N_ERR_NO_RENEGOTIATION} \<union> set S2N_NO_ALERT_cases)
          = (error_code \<in> {S2N_ERR_UNEXPECTED_CERT_REQUEST, S2N_ERR_NO_VALID_SIGNATURE_SCHEME,
               S2N_ERR_CERT_NOT_YET_VALID, S2N_ERR_CERT_REJECTED,
               S2N_ERR_CRL_INVALID_THIS_UPDATE, S2N_ERR_CRL_INVALID_NEXT_UPDATE,
               S2N_ERR_CRL_NOT_YET_VALID, S2N_ERR_CRL_EXPIRED, S2N_ERR_KTLS_KEYUPDATE}))
   \<and> S2N_ERR_NO_ALERT \<noteq> S2N_ERR_UNIMPLEMENTED"
proof -
  have mapped:
    "s2n_translate_protocol_error_to_alert S2N_ERR_MISSING_EXTENSION (Some old) = (Inr (), Some 109)"
    "s2n_translate_protocol_error_to_alert S2N_ERR_BAD_MESSAGE (Some old) = (Inr (), Some 10)"
    "s2n_translate_protocol_error_to_alert S2N_ERR_NO_RENEGOTIATION (Some old) = (Inr (), Some 40)"
    by (simp_all add: s2n_translate_protocol_error_to_alert_def mapped_distinct
          s2n_tls_alert_defs)
  have no_alert: "s2n_translate_protocol_error_to_alert error_code (Some old)
          = (Inl S2N_ERR_NO_ALERT, Some old)" if "error_code \<in> set S2N_NO_ALERT_cases"
    using that mapped_not_in_no_alert_cases
    by (auto simp: s2n_translate_protocol_error_to_alert_def)
  have unimplemented: "s2n_translate_protocol_error_to_alert error_code (Some old)
          = (Inl S2N_ERR_UNIMPLEMENTED, Some old)"
    if "error_code \<notin> {S2N_ERR_MISSING_EXTENSION, S2N_ERR_BAD_MESSAGE,
                            S2N_ERR_NO_RENEGOTIATION} \<union> set S2N_NO_ALERT_cases"
    using that by (simp add: s2n_translate_protocol_error_to_alert_def)
  have distinct: "S2N_ERR_NO_ALERT \<noteq> S2N_ERR_UNIMPLEMENTED"
    by (simp add: s2n_err_all_defs)
  show ?thesis
    using mapped no_alert unimplemented distinct
      s2n_err_t_proto_values_type s2n_err_t_proto_values_partition
    unfolding list_all_iff by blast
qed

theorem s2n_translate_protocol_error_to_alert_table_witness:
  "S2N_ERR_ENCRYPT \<in> set S2N_NO_ALERT_cases
   \<and> s2n_translate_protocol_error_to_alert S2N_ERR_ENCRYPT (Some 0)
       = (Inl S2N_ERR_NO_ALERT, Some 0)
   \<and> S2N_ERR_CERT_REJECTED \<in> set s2n_err_t_proto_values
   \<and> s2n_error_get_type S2N_ERR_CERT_REJECTED = S2N_ERR_T_PROTO
   \<and> S2N_ERR_CERT_REJECTED \<notin> {S2N_ERR_MISSING_EXTENSION, S2N_ERR_BAD_MESSAGE,
                            S2N_ERR_NO_RENEGOTIATION} \<union> set S2N_NO_ALERT_cases
   \<and> s2n_translate_protocol_error_to_alert S2N_ERR_CERT_REJECTED (Some 0)
       = (Inl S2N_ERR_UNIMPLEMENTED, Some 0)"
proof -
  have a: "S2N_ERR_ENCRYPT \<in> set S2N_NO_ALERT_cases"
    by (simp add: S2N_NO_ALERT_cases_def)
  have b: "S2N_ERR_CERT_REJECTED \<in> set s2n_err_t_proto_values"
    by (simp add: s2n_err_t_proto_values_def)
  show ?thesis
    using a b s2n_translate_protocol_error_to_alert_table [of 0 S2N_ERR_ENCRYPT]
      s2n_translate_protocol_error_to_alert_table [of 0 S2N_ERR_CERT_REJECTED]
    by simp
qed

theorem s2n_translate_protocol_error_to_alert_counterexample:
  "s2n_error_get_type S2N_ERR_ENCRYPT = S2N_ERR_T_PROTO
   \<and> S2N_ERR_ENCRYPT \<noteq> S2N_ERR_MISSING_EXTENSION
   \<and> S2N_ERR_ENCRYPT \<noteq> S2N_ERR_BAD_MESSAGE
   \<and> S2N_ERR_ENCRYPT \<noteq> S2N_ERR_NO_RENEGOTIATION
   \<and> s2n_translate_protocol_error_to_alert S2N_ERR_ENCRYPT (Some 0)
       \<noteq> (Inl S2N_ERR_UNIMPLEMENTED, Some 0)"
  by (simp add: s2n_translate_protocol_error_to_alert_def S2N_NO_ALERT_cases_def
       s2n_error_get_type_def s2n_err_all_defs)

section \<open>The entry point \<open>s2n_error_get_alert\<close>\<close>

text \<open>
  C2 (amended). For every error code whose type is OK, CLOSED, BLOCKED, USAGE or ALERT,
  \<open>s2n_error_get_alert\<close> fails with the "no alert" error and leaves the output alert as
  it was. For every error code whose type is IO or INTERNAL it succeeds and sets the output
  alert to the internal_error alert description, whose value is 80 (not 60). For every
  error code whose type is PROTO its result and its output alert are those of the
  translation of protocol errors.
\<close>

theorem s2n_error_get_alert_by_type:
  "(s2n_error_get_type error \<in> {S2N_ERR_T_OK, S2N_ERR_T_CLOSED, S2N_ERR_T_BLOCKED,
                                   S2N_ERR_T_USAGE, S2N_ERR_T_ALERT} \<longrightarrow>
      s2n_error_get_alert error (Some old) = (Inl S2N_ERR_NO_ALERT, Some old))
   \<and> (s2n_error_get_type error \<in> {S2N_ERR_T_IO, S2N_ERR_T_INTERNAL} \<longrightarrow>
      s2n_error_get_alert error (Some old) = (Inr (), Some S2N_TLS_ALERT_INTERNAL_ERROR))
   \<and> (s2n_error_get_type error = S2N_ERR_T_PROTO \<longrightarrow>
      s2n_error_get_alert error (Some old)
        = s2n_translate_protocol_error_to_alert error (Some old))
   \<and> S2N_TLS_ALERT_INTERNAL_ERROR = 80"
proof -
  have proto: "s2n_error_get_alert error (Some old)
        = s2n_translate_protocol_error_to_alert error (Some old)"
    if "s2n_error_get_type error = S2N_ERR_T_PROTO"
  proof (cases "s2n_translate_protocol_error_to_alert error (Some old)")
    case (Pair r alert')
    with that show ?thesis
      by (cases r) (simp_all add: s2n_error_get_alert_def s2n_err_t_defs)
  qed
  have no_alert: "s2n_error_get_alert error (Some old) = (Inl S2N_ERR_NO_ALERT, Some old)"
    if "s2n_error_get_type error \<in> {S2N_ERR_T_OK, S2N_ERR_T_CLOSED, S2N_ERR_T_BLOCKED,
                                   S2N_ERR_T_USAGE, S2N_ERR_T_ALERT}"
    using that by (auto simp: s2n_error_get_alert_def)
  have internal: "s2n_error_get_alert error (Some old)
        = (Inr (), Some S2N_TLS_ALERT_INTERNAL_ERROR)"
    if "s2n_error_get_type error \<in> {S2N_ERR_T_IO, S2N_ERR_T_INTERNAL}"
    using that by (auto simp: s2n_error_get_alert_def s2n_err_t_defs)
  show ?thesis
    using proto no_alert internal by (simp add: S2N_TLS_ALERT_INTERNAL_ERROR_def)
qed

theorem s2n_error_get_alert_by_type_witness:
  "s2n_error_get_type S2N_ERR_CLOSED = S2N_ERR_T_CLOSED
   \<and> s2n_error_get_alert S2N_ERR_CLOSED (Some 7) = (Inl S2N_ERR_NO_ALERT, Some 7)
   \<and> s2n_error_get_type S2N_ERR_MADVISE = S2N_ERR_T_INTERNAL
   \<and> s2n_error_get_alert S2N_ERR_MADVISE (Some 7) = (Inr (), Some 80)
   \<and> s2n_error_get_type S2N_ERR_BAD_MESSAGE = S2N_ERR_T_PROTO
   \<and> s2n_error_get_alert S2N_ERR_BAD_MESSAGE (Some 7) = (Inr (), Some 10)"
proof -
  have types: "s2n_error_get_type S2N_ERR_CLOSED = S2N_ERR_T_CLOSED"
    "s2n_error_get_type S2N_ERR_MADVISE = S2N_ERR_T_INTERNAL"
    "s2n_error_get_type S2N_ERR_BAD_MESSAGE = S2N_ERR_T_PROTO"
    by (simp_all add: s2n_error_get_type_def s2n_err_all_defs)
  have translated: "s2n_translate_protocol_error_to_alert S2N_ERR_BAD_MESSAGE (Some 7)
      = (Inr (), Some 10)"
    by (simp add: s2n_translate_protocol_error_to_alert_def mapped_distinct s2n_tls_alert_defs)
  show ?thesis
    using types translated
      s2n_error_get_alert_by_type [of S2N_ERR_CLOSED 7]
      s2n_error_get_alert_by_type [of S2N_ERR_MADVISE 7]
      s2n_error_get_alert_by_type [of S2N_ERR_BAD_MESSAGE 7]
    by simp
qed

theorem s2n_error_get_alert_internal_error_counterexample:
  "s2n_error_get_type S2N_ERR_IO = S2N_ERR_T_IO
   \<and> s2n_error_get_alert S2N_ERR_IO (Some 0) = (Inr (), Some 80)
   \<and> s2n_error_get_alert S2N_ERR_IO (Some 0) \<noteq> (Inr (), Some 60)"
  by (simp add: s2n_error_get_alert_def s2n_error_get_type_def s2n_err_all_defs
        S2N_TLS_ALERT_INTERNAL_ERROR_def)

text \<open>
  C10. For every error value whose type is none of the 8 defined error types,
  \<open>s2n_error_get_alert\<close> returns success and leaves the output alert as it was: the
  switch over the error type has no default branch. Such values exist, for instance the
  one whose upper bits are 8, the type after USAGE.
\<close>

theorem s2n_error_get_alert_unknown_type:
  assumes "s2n_error_get_type error \<notin> {S2N_ERR_T_OK, S2N_ERR_T_IO, S2N_ERR_T_CLOSED,
             S2N_ERR_T_BLOCKED, S2N_ERR_T_ALERT, S2N_ERR_T_PROTO, S2N_ERR_T_INTERNAL,
             S2N_ERR_T_USAGE}"
  shows "s2n_error_get_alert error (Some old) = (Inr (), Some old)"
  using assms by (simp add: s2n_error_get_alert_def)

theorem s2n_error_get_alert_unknown_type_witness:
  "s2n_error_get_type (S2N_ERR_T_USAGE_START + 0x4000000)
      \<notin> {S2N_ERR_T_OK, S2N_ERR_T_IO, S2N_ERR_T_CLOSED,
             S2N_ERR_T_BLOCKED, S2N_ERR_T_ALERT, S2N_ERR_T_PROTO, S2N_ERR_T_INTERNAL,
             S2N_ERR_T_USAGE}
   \<and> s2n_error_get_alert (S2N_ERR_T_USAGE_START + 0x4000000) (Some 7) = (Inr (), Some 7)"
proof -
  have t: "s2n_error_get_type (S2N_ERR_T_USAGE_START + 0x4000000) = 8"
    by (simp add: s2n_error_get_type_def s2n_err_all_defs)
  have h: "s2n_error_get_type (S2N_ERR_T_USAGE_START + 0x4000000)
      \<notin> {S2N_ERR_T_OK, S2N_ERR_T_IO, S2N_ERR_T_CLOSED,
             S2N_ERR_T_BLOCKED, S2N_ERR_T_ALERT, S2N_ERR_T_PROTO, S2N_ERR_T_INTERNAL,
             S2N_ERR_T_USAGE}"
    unfolding t by (simp add: s2n_err_t_defs)
  show ?thesis
    using h s2n_error_get_alert_unknown_type [OF h, of 7] by simp
qed

section \<open>Inbound alert processing\<close>

lemmas s2n_accessor_defs =
  s2n_alerts_supported_def s2n_connection_is_quic_enabled_def
  s2n_connection_get_protocol_version_def s2n_allowed_to_cache_connection_def
  alert_in_data_def s2n_stuffer_data_available_def

lemmas example_defs = example_conn_def example_config_def example_cache_delete_def

text \<open>One round of the loop completes an alert when the missing bytes are available.\<close>

lemma s2n_process_alert_fragment_loop_completes:
  assumes "length (alert_in c) < 2"
    and "alert_in c @ take (2 - length (alert_in c)) (conn_in c) = [level, type]"
  shows "s2n_process_alert_fragment_loop c =
    s2n_process_alert_fragment_dispatch
      (c\<lparr>conn_in := drop (2 - length (alert_in c)) (conn_in c), alert_in := [level, type]\<rparr>)"
proof -
  have "length (alert_in c @ take (2 - length (alert_in c)) (conn_in c)) = 2"
    using assms(2) by simp
  with assms(1) have enough: "2 - length (alert_in c) \<le> length (conn_in c)"
    by (simp add: min_def split: if_splits)
  from assms(1) have "length (alert_in c) = 0 \<or> length (alert_in c) = 1"
    by arith
  then show ?thesis
  proof
    assume "length (alert_in c) = 0"
    with enough assms(2) show ?thesis
      by (subst s2n_process_alert_fragment_loop.simps)
        (auto simp: s2n_stuffer_data_available_def s2n_stuffer_copy_def S2N_ALERT_LENGTH_def
          min_def)
  next
    assume "length (alert_in c) = 1"
    with enough assms(2) show ?thesis
      by (subst s2n_process_alert_fragment_loop.simps)
        (auto simp: s2n_stuffer_data_available_def s2n_stuffer_copy_def S2N_ALERT_LENGTH_def
          min_def)
  qed
qed

lemma s2n_process_alert_fragment_loop_partial:
  assumes "alert_in c = []" and "conn_in c = [b]"
  shows "s2n_process_alert_fragment_loop c = (Inr (), c\<lparr>conn_in := [], alert_in := [b]\<rparr>)"
proof -
  have "s2n_process_alert_fragment_loop c =
      s2n_process_alert_fragment_loop (c\<lparr>conn_in := [], alert_in := [b]\<rparr>)"
    using assms
    by (subst s2n_process_alert_fragment_loop.simps)
      (simp add: s2n_stuffer_data_available_def s2n_stuffer_copy_def S2N_ALERT_LENGTH_def)
  also have "\<dots> = (Inr (), c\<lparr>conn_in := [], alert_in := [b]\<rparr>)"
    by (subst s2n_process_alert_fragment_loop.simps)
      (simp add: s2n_stuffer_data_available_def)
  finally show ?thesis .
qed

lemma s2n_process_alert_fragment_completes:
  assumes "s2n_alerts_supported c"
    and "length (alert_in c) < 2"
    and "alert_in c @ take (2 - length (alert_in c)) (conn_in c) = [level, type]"
  shows "s2n_process_alert_fragment (Some c) =
    (case s2n_process_alert_fragment_dispatch
       (c\<lparr>conn_in := drop (2 - length (alert_in c)) (conn_in c), alert_in := [level, type]\<rparr>)
     of (r, c') \<Rightarrow> (r, Some c'))"
proof -
  have "conn_in c \<noteq> []"
    using assms(2,3) by (cases "conn_in c") auto
  then show ?thesis
    using assms
    by (simp add: s2n_process_alert_fragment_def s2n_stuffer_data_available_def
      s2n_process_alert_fragment_loop_completes [OF assms(2,3)])
qed

text \<open>
  C8 (amended). \<open>s2n_process_alert_fragment\<close> fails before it reads anything in three
  cases, and in each of them it consumes no input and leaves the connection as it was:
  with no input available it fails with the "bad message" error; with input available and
  a complete 2-byte alert already in the reassembly buffer it fails with the "alert
  present" error \<open>S2N_ERR_ALERT_PRESENT\<close>, an error of the INTERNAL category, not with
  "bad message"; with input available, no complete alert buffered and alerts not
  supported (QUIC) it fails with the "bad message" error.
\<close>

theorem s2n_process_alert_fragment_preconditions:
  "(s2n_stuffer_data_available (conn_in c) = 0 \<longrightarrow>
      s2n_process_alert_fragment (Some c) = (Inl S2N_ERR_BAD_MESSAGE, Some c))
   \<and> (s2n_stuffer_data_available (conn_in c) \<noteq> 0
        \<and> s2n_stuffer_data_available (alert_in c) = 2 \<longrightarrow>
      s2n_process_alert_fragment (Some c) = (Inl S2N_ERR_ALERT_PRESENT, Some c))
   \<and> (s2n_stuffer_data_available (conn_in c) \<noteq> 0
        \<and> s2n_stuffer_data_available (alert_in c) \<noteq> 2
        \<and> \<not> s2n_alerts_supported c \<longrightarrow>
      s2n_process_alert_fragment (Some c) = (Inl S2N_ERR_BAD_MESSAGE, Some c))
   \<and> S2N_ERR_ALERT_PRESENT \<noteq> S2N_ERR_BAD_MESSAGE
   \<and> s2n_error_get_type S2N_ERR_ALERT_PRESENT = S2N_ERR_T_INTERNAL"
  by (simp add: s2n_process_alert_fragment_def s2n_error_get_type_def s2n_err_all_defs)

theorem s2n_process_alert_fragment_preconditions_witness:
  "s2n_stuffer_data_available (conn_in example_conn) = 0
   \<and> s2n_process_alert_fragment (Some example_conn) = (Inl S2N_ERR_BAD_MESSAGE, Some example_conn)
   \<and> s2n_stuffer_data_available (alert_in (example_conn\<lparr>conn_in := [1], alert_in := [2, 40]\<rparr>)) = 2
   \<and> s2n_process_alert_fragment (Some (example_conn\<lparr>conn_in := [1], alert_in := [2, 40]\<rparr>))
       = (Inl S2N_ERR_ALERT_PRESENT, Some (example_conn\<lparr>conn_in := [1], alert_in := [2, 40]\<rparr>))
   \<and> \<not> s2n_alerts_supported (example_conn\<lparr>quic_enabled := True, conn_in := [1]\<rparr>)
   \<and> s2n_process_alert_fragment (Some (example_conn\<lparr>quic_enabled := True, conn_in := [1]\<rparr>))
       = (Inl S2N_ERR_BAD_MESSAGE, Some (example_conn\<lparr>quic_enabled := True, conn_in := [1]\<rparr>))"
  using s2n_process_alert_fragment_preconditions [of example_conn]
    s2n_process_alert_fragment_preconditions [of "example_conn\<lparr>conn_in := [1], alert_in := [2, 40]\<rparr>"]
    s2n_process_alert_fragment_preconditions [of "example_conn\<lparr>quic_enabled := True, conn_in := [1]\<rparr>"]
  by (simp add: example_defs s2n_accessor_defs)

theorem s2n_process_alert_fragment_alert_present_counterexample:
  "s2n_stuffer_data_available (conn_in (example_conn\<lparr>conn_in := [1, 0], alert_in := [2, 40]\<rparr>)) = 2
   \<and> s2n_stuffer_data_available (alert_in (example_conn\<lparr>conn_in := [1, 0], alert_in := [2, 40]\<rparr>)) = 2
   \<and> fst (s2n_process_alert_fragment (Some (example_conn\<lparr>conn_in := [1, 0], alert_in := [2, 40]\<rparr>)))
       = Inl S2N_ERR_ALERT_PRESENT
   \<and> fst (s2n_process_alert_fragment (Some (example_conn\<lparr>conn_in := [1, 0], alert_in := [2, 40]\<rparr>)))
       \<noteq> Inl S2N_ERR_BAD_MESSAGE"
  by (simp add: s2n_process_alert_fragment_def example_defs s2n_accessor_defs s2n_err_all_defs)

text \<open>
  C4 (amended). For every connection on which alerts are supported, whatever its protocol
  version, configuration and flags: when inbound processing completes a 2-byte alert whose
  description is close_notify (0), it sets \<open>closed\<close> and \<open>close_notify_received\<close> and
  returns success, whatever the level byte. The reassembly buffer is not cleared: it keeps
  the two bytes of the alert. Nothing else of the connection changes but the input that
  was consumed.
\<close>

theorem s2n_process_alert_fragment_close_notify:
  assumes "s2n_alerts_supported c"
    and "length (alert_in c) < 2"
    and "alert_in c @ take (2 - length (alert_in c)) (conn_in c)
           = [level, S2N_TLS_ALERT_CLOSE_NOTIFY]"
  shows "s2n_process_alert_fragment (Some c) =
           (Inr (), Some (c\<lparr>conn_in := drop (2 - length (alert_in c)) (conn_in c),
                              alert_in := [level, S2N_TLS_ALERT_CLOSE_NOTIFY],
                              closed := True, close_notify_received := True\<rparr>))"
  unfolding s2n_process_alert_fragment_completes [OF assms(1-3)]
  by (simp add: s2n_process_alert_fragment_dispatch_def s2n_accessor_defs)

theorem s2n_process_alert_fragment_close_notify_witness:
  "s2n_alerts_supported (example_conn\<lparr>conn_in := [2, 0]\<rparr>)
   \<and> s2n_process_alert_fragment (Some (example_conn\<lparr>conn_in := [2, 0]\<rparr>))
       = (Inr (), Some (example_conn\<lparr>alert_in := [2, 0], closed := True,
                                      close_notify_received := True\<rparr>))"
proof -
  let ?a = "example_conn\<lparr>conn_in := [2, 0]\<rparr>"
  have supported: "s2n_alerts_supported ?a"
    by (simp add: example_defs s2n_accessor_defs)
  have partial: "length (alert_in ?a) < 2"
    by (simp add: example_defs)
  have bytes: "alert_in ?a @ take (2 - length (alert_in ?a)) (conn_in ?a)
      = [2, S2N_TLS_ALERT_CLOSE_NOTIFY]"
    by (simp add: example_defs S2N_TLS_ALERT_CLOSE_NOTIFY_def)
  show ?thesis
    using supported s2n_process_alert_fragment_close_notify [OF supported partial bytes]
    by (simp add: example_defs S2N_TLS_ALERT_CLOSE_NOTIFY_def)
qed

theorem s2n_process_alert_fragment_close_notify_counterexample:
  "fst (s2n_process_alert_fragment (Some (example_conn\<lparr>alert_in := [1], conn_in := [0]\<rparr>)))
     = Inr ()
   \<and> map_option alert_in
        (snd (s2n_process_alert_fragment (Some (example_conn\<lparr>alert_in := [1], conn_in := [0]\<rparr>))))
     = Some [1, 0]
   \<and> map_option (\<lambda>c. s2n_stuffer_data_available (alert_in c))
        (snd (s2n_process_alert_fragment (Some (example_conn\<lparr>alert_in := [1], conn_in := [0]\<rparr>))))
     = Some 2"
proof -
  let ?a = "example_conn\<lparr>alert_in := [1], conn_in := [0]\<rparr>"
  have "s2n_alerts_supported ?a" "length (alert_in ?a) < 2"
    "alert_in ?a @ take (2 - length (alert_in ?a)) (conn_in ?a) = [1, 0]"
    by (simp_all add: example_defs s2n_accessor_defs)
  from s2n_process_alert_fragment_completes [OF this] show ?thesis
    by (simp add: s2n_process_alert_fragment_dispatch_def s2n_accessor_defs
          S2N_TLS_ALERT_CLOSE_NOTIFY_def)
qed

text \<open>
  C1. For every 2-byte alert that inbound processing completes and whose description is
  not close_notify: below TLS 1.3 the alert is tolerated (success, the reassembly buffer
  wiped, the flags of the connection untouched) if and only if the level byte is warning
  (1) and the connection's alert behavior is to ignore warnings; from TLS 1.3 on it is
  tolerated if and only if the description is user_canceled (90), whatever the level byte
  and the alert behavior. The call succeeds in no other case.
\<close>

theorem s2n_process_alert_fragment_warning:
  assumes "s2n_alerts_supported c"
    and "length (alert_in c) < 2"
    and "alert_in c @ take (2 - length (alert_in c)) (conn_in c) = [level, type]"
    and "type \<noteq> S2N_TLS_ALERT_CLOSE_NOTIFY"
  shows "(s2n_process_alert_fragment (Some c) =
            (Inr (), Some (c\<lparr>conn_in := drop (2 - length (alert_in c)) (conn_in c),
                              alert_in := []\<rparr>)))
          = (if s2n_connection_get_protocol_version c < S2N_TLS13
               then level = 1 \<and> alert_behavior (config c) = S2N_ALERT_IGNORE_WARNINGS
             else type = 90)
       \<and> (fst (s2n_process_alert_fragment (Some c)) = Inr ())
          = (if s2n_connection_get_protocol_version c < S2N_TLS13
               then level = 1 \<and> alert_behavior (config c) = S2N_ALERT_IGNORE_WARNINGS
             else type = 90)"
  unfolding s2n_process_alert_fragment_completes [OF assms(1-3)]
  using assms(4)
  by (simp add: s2n_process_alert_fragment_dispatch_def s2n_process_as_warning_def
        s2n_stuffer_wipe_def s2n_accessor_defs S2N_TLS_ALERT_LEVEL_WARNING_def
        S2N_TLS_ALERT_USER_CANCELED_def Let_def split: prod.splits)

theorem s2n_process_alert_fragment_warning_witness:
  "s2n_alerts_supported (example_conn\<lparr>conn_in := [1, 100]\<rparr>)
   \<and> s2n_connection_get_protocol_version (example_conn\<lparr>conn_in := [1, 100]\<rparr>) < S2N_TLS13
   \<and> s2n_process_alert_fragment (Some (example_conn\<lparr>conn_in := [1, 100]\<rparr>))
       = (Inr (), Some example_conn)
   \<and> fst (s2n_process_alert_fragment (Some (example_conn\<lparr>conn_in := [2, 100]\<rparr>)))
       \<noteq> Inr ()
   \<and> s2n_process_alert_fragment
        (Some (example_conn\<lparr>protocol_version := 34, alert_in := [2], conn_in := [90]\<rparr>))
       = (Inr (), Some (example_conn\<lparr>protocol_version := 34\<rparr>))"
proof -
  let ?a = "example_conn\<lparr>conn_in := [1, 100]\<rparr>"
  let ?b = "example_conn\<lparr>conn_in := [2, 100]\<rparr>"
  let ?c = "example_conn\<lparr>protocol_version := 34, alert_in := [2], conn_in := [90]\<rparr>"
  have supported: "s2n_alerts_supported ?a" "s2n_alerts_supported ?b" "s2n_alerts_supported ?c"
    by (simp_all add: example_defs s2n_accessor_defs)
  have partial: "length (alert_in ?a) < 2" "length (alert_in ?b) < 2" "length (alert_in ?c) < 2"
    by (simp_all add: example_defs)
  have bytes: "alert_in ?a @ take (2 - length (alert_in ?a)) (conn_in ?a) = [1, 100]"
    "alert_in ?b @ take (2 - length (alert_in ?b)) (conn_in ?b) = [2, 100]"
    "alert_in ?c @ take (2 - length (alert_in ?c)) (conn_in ?c) = [2, 90]"
    by (simp_all add: example_defs)
  have other: "(100 :: 8 word) \<noteq> S2N_TLS_ALERT_CLOSE_NOTIFY"
    "(90 :: 8 word) \<noteq> S2N_TLS_ALERT_CLOSE_NOTIFY"
    by (simp_all add: S2N_TLS_ALERT_CLOSE_NOTIFY_def)
  show ?thesis
    using supported(1)
      s2n_process_alert_fragment_warning [OF supported(1) partial(1) bytes(1) other(1)]
      s2n_process_alert_fragment_warning [OF supported(2) partial(2) bytes(2) other(1)]
      s2n_process_alert_fragment_warning [OF supported(3) partial(3) bytes(3) other(2)]
    by (simp add: example_defs s2n_accessor_defs S2N_TLS13_def)
qed

text \<open>
  C5. For every 2-byte alert that inbound processing completes and that is neither
  close_notify nor tolerated as a warning: if the connection may be cached and its session
  id is not empty, \<open>cache_delete\<close> is called on the session id, and the cache data are
  what the callback leaves; then \<open>closed\<close> is set and the call fails with
  \<open>S2N_ERR_ALERT\<close>, an error of the ALERT category. The status that the callback returns
  appears nowhere in the result: whatever it is, the connection is closed and the error is
  the same.
\<close>

theorem s2n_process_alert_fragment_fatal:
  assumes "s2n_alerts_supported c"
    and "length (alert_in c) < 2"
    and "alert_in c @ take (2 - length (alert_in c)) (conn_in c) = [level, type]"
    and "type \<noteq> S2N_TLS_ALERT_CLOSE_NOTIFY"
    and "\<not> s2n_process_as_warning c level type"
  shows "s2n_process_alert_fragment (Some c) =
           (Inl S2N_ERR_ALERT,
            Some ((if s2n_allowed_to_cache_connection c \<and> session_id_len c \<noteq> 0
                     then c\<lparr>config := (config c)\<lparr>cache_delete_data :=
                            snd (cache_delete (config c) (cache_delete_data (config c))
                                   (session_id c) (unat (session_id_len c)))\<rparr>\<rparr>
                   else c)
                  \<lparr>conn_in := drop (2 - length (alert_in c)) (conn_in c),
                   alert_in := [level, type], closed := True\<rparr>))
         \<and> s2n_error_get_type S2N_ERR_ALERT = S2N_ERR_T_ALERT"
proof -
  have "s2n_error_get_type S2N_ERR_ALERT = S2N_ERR_T_ALERT"
    by (simp add: s2n_error_get_type_def s2n_err_all_defs)
  moreover have "\<not> s2n_process_as_warning
      (c\<lparr>conn_in := drop (2 - length (alert_in c)) (conn_in c), alert_in := [level, type]\<rparr>)
      level type"
    using assms(5) by (auto simp: s2n_process_as_warning_def s2n_accessor_defs split: if_splits)
  ultimately show ?thesis
    unfolding s2n_process_alert_fragment_completes [OF assms(1-3)]
    using assms(4)
    by (simp add: s2n_process_alert_fragment_dispatch_def s2n_accessor_defs Let_def
          split: prod.splits)
qed

theorem s2n_process_alert_fragment_fatal_witness:
  "s2n_alerts_supported (example_conn\<lparr>conn_in := [2, 40]\<rparr>)
   \<and> \<not> s2n_process_as_warning (example_conn\<lparr>conn_in := [2, 40]\<rparr>) 2 40
   \<and> s2n_allowed_to_cache_connection (example_conn\<lparr>conn_in := [2, 40]\<rparr>)
   \<and> fst (cache_delete example_config [[1, 2, 3], [4, 5]] [4, 5, 0, 0] 2) = - 1
   \<and> s2n_process_alert_fragment (Some (example_conn\<lparr>conn_in := [2, 40]\<rparr>))
       = (Inl S2N_ERR_ALERT,
          Some (example_conn\<lparr>config := example_config\<lparr>cache_delete_data := [[1, 2, 3]]\<rparr>,
                             alert_in := [2, 40], closed := True\<rparr>))"
proof -
  let ?a = "example_conn\<lparr>conn_in := [2, 40]\<rparr>"
  have supported: "s2n_alerts_supported ?a"
    by (simp add: example_defs s2n_accessor_defs)
  have partial: "length (alert_in ?a) < 2"
    by (simp add: example_defs)
  have bytes: "alert_in ?a @ take (2 - length (alert_in ?a)) (conn_in ?a) = [2, 40]"
    by (simp add: example_defs)
  have other: "(40 :: 8 word) \<noteq> S2N_TLS_ALERT_CLOSE_NOTIFY"
    by (simp add: S2N_TLS_ALERT_CLOSE_NOTIFY_def)
  have fatal: "\<not> s2n_process_as_warning ?a 2 40"
    by (simp add: s2n_process_as_warning_def example_defs s2n_accessor_defs
          S2N_TLS_ALERT_LEVEL_WARNING_def S2N_TLS13_def)
  show ?thesis
    using supported fatal
      s2n_process_alert_fragment_fatal [OF supported partial bytes other fatal]
    by (simp add: example_defs s2n_accessor_defs)
qed

text \<open>
  C6 (amended). For every byte pair, protocol version and configuration, and every
  connection whose reassembly buffer is empty: processing the two bytes delivered together
  and processing them delivered one after the other give the same result and the same
  connection (reassembly buffer, flags, cache data); when alerts are supported both
  deliveries also leave no input behind. From a reassembly buffer that already holds a
  byte the two deliveries differ, as the example after the theorem shows.
\<close>

theorem s2n_process_alert_fragments_equivalence:
  assumes "alert_in c = []"
  shows "fst (s2n_process_alert_fragments c [[b0], [b1]])
           = fst (s2n_process_alert_fragments c [[b0, b1]])
       \<and> map_option (\<lambda>c'. c'\<lparr>conn_in := []\<rparr>) (snd (s2n_process_alert_fragments c [[b0], [b1]]))
           = map_option (\<lambda>c'. c'\<lparr>conn_in := []\<rparr>) (snd (s2n_process_alert_fragments c [[b0, b1]]))
       \<and> (s2n_alerts_supported c \<longrightarrow>
            s2n_process_alert_fragments c [[b0], [b1]]
              = s2n_process_alert_fragments c [[b0, b1]])"
proof (cases "s2n_alerts_supported c")
  case False
  with assms show ?thesis
    by (simp add: s2n_process_alert_fragment_def s2n_accessor_defs)
next
  case True
  let ?c0 = "c\<lparr>conn_in := [b0]\<rparr>"
  let ?c1 = "c\<lparr>alert_in := [b0], conn_in := [b1]\<rparr>"
  let ?c2 = "c\<lparr>conn_in := [b0, b1]\<rparr>"
  have first: "s2n_process_alert_fragment (Some ?c0)
      = (Inr (), Some (c\<lparr>conn_in := [], alert_in := [b0]\<rparr>))"
    using assms True
    by (simp add: s2n_process_alert_fragment_def s2n_accessor_defs
          s2n_process_alert_fragment_loop_partial [of ?c0 b0])
  have second: "s2n_process_alert_fragment (Some ?c1)
      = (case s2n_process_alert_fragment_dispatch (c\<lparr>conn_in := [], alert_in := [b0, b1]\<rparr>)
         of (r, c') \<Rightarrow> (r, Some c'))"
    using True s2n_process_alert_fragment_completes [of ?c1 b0 b1]
    by (simp add: s2n_accessor_defs)
  have whole: "s2n_process_alert_fragment (Some ?c2)
      = (case s2n_process_alert_fragment_dispatch (c\<lparr>conn_in := [], alert_in := [b0, b1]\<rparr>)
         of (r, c') \<Rightarrow> (r, Some c'))"
    using True assms s2n_process_alert_fragment_completes [of ?c2 b0 b1]
    by (simp add: s2n_accessor_defs)
  have "s2n_process_alert_fragments c [[b0], [b1]] = s2n_process_alert_fragments c [[b0, b1]]"
    by (simp add: first second whole)
  then show ?thesis by simp
qed

theorem s2n_process_alert_fragments_equivalence_witness:
  "alert_in example_conn = []
   \<and> s2n_alerts_supported example_conn
   \<and> s2n_process_alert_fragments example_conn [[2], [0]]
       = s2n_process_alert_fragments example_conn [[2, 0]]
   \<and> s2n_process_alert_fragments example_conn [[2, 0]]
       = (Inr (), Some (example_conn\<lparr>alert_in := [2, 0], closed := True,
                                      close_notify_received := True\<rparr>))"
proof -
  let ?a = "example_conn\<lparr>conn_in := [2, 0]\<rparr>"
  have empty: "alert_in example_conn = []"
    by (simp add: example_defs)
  have supported: "s2n_alerts_supported example_conn"
    by (simp add: example_defs s2n_accessor_defs)
  have a: "s2n_alerts_supported ?a" "length (alert_in ?a) < 2"
    "alert_in ?a @ take (2 - length (alert_in ?a)) (conn_in ?a) = [2, 0]"
    by (simp_all add: example_defs s2n_accessor_defs)
  have whole: "s2n_process_alert_fragments example_conn [[2, 0]]
       = (Inr (), Some (example_conn\<lparr>alert_in := [2, 0], closed := True,
                                      close_notify_received := True\<rparr>))"
    using s2n_process_alert_fragment_completes [OF a]
    by (simp add: s2n_process_alert_fragment_dispatch_def s2n_accessor_defs
          S2N_TLS_ALERT_CLOSE_NOTIFY_def example_defs)
  show ?thesis
    using empty supported whole
      s2n_process_alert_fragments_equivalence [OF empty, of 2 0]
    by simp
qed

theorem s2n_process_alert_fragments_partial_counterexample:
  "alert_in (example_conn\<lparr>alert_in := [1]\<rparr>) = [1]
   \<and> fst (s2n_process_alert_fragments (example_conn\<lparr>alert_in := [1]\<rparr>) [[0], [0]])
       = Inl S2N_ERR_ALERT_PRESENT
   \<and> fst (s2n_process_alert_fragments (example_conn\<lparr>alert_in := [1]\<rparr>) [[0, 0]])
       = Inr ()"
proof -
  let ?a = "example_conn\<lparr>alert_in := [1], conn_in := [0]\<rparr>"
  let ?b = "example_conn\<lparr>alert_in := [1], conn_in := [0, 0]\<rparr>"
  have a: "s2n_alerts_supported ?a" "length (alert_in ?a) < 2"
    "alert_in ?a @ take (2 - length (alert_in ?a)) (conn_in ?a) = [1, 0]"
    by (simp_all add: example_defs s2n_accessor_defs)
  have b: "s2n_alerts_supported ?b" "length (alert_in ?b) < 2"
    "alert_in ?b @ take (2 - length (alert_in ?b)) (conn_in ?b) = [1, 0]"
    by (simp_all add: example_defs s2n_accessor_defs)
  have first: "s2n_process_alert_fragment (Some ?a)
      = (Inr (), Some (example_conn\<lparr>alert_in := [1, 0], closed := True,
                                      close_notify_received := True\<rparr>))"
    using s2n_process_alert_fragment_completes [OF a]
    by (simp add: s2n_process_alert_fragment_dispatch_def s2n_accessor_defs
          S2N_TLS_ALERT_CLOSE_NOTIFY_def example_defs)
  have second: "s2n_process_alert_fragment
      (Some (example_conn\<lparr>alert_in := [1, 0], closed := True,
                            close_notify_received := True, conn_in := [0]\<rparr>))
      = (Inl S2N_ERR_ALERT_PRESENT,
         Some (example_conn\<lparr>alert_in := [1, 0], closed := True,
                            close_notify_received := True, conn_in := [0]\<rparr>))"
    by (simp add: s2n_process_alert_fragment_def s2n_accessor_defs example_defs)
  have whole: "s2n_process_alert_fragment (Some ?b)
      = (Inr (), Some (example_conn\<lparr>alert_in := [1, 0], conn_in := [0], closed := True,
                                      close_notify_received := True\<rparr>))"
    using s2n_process_alert_fragment_completes [OF b]
    by (simp add: s2n_process_alert_fragment_dispatch_def s2n_accessor_defs
          S2N_TLS_ALERT_CLOSE_NOTIFY_def example_defs)
  have "fst (s2n_process_alert_fragments (example_conn\<lparr>alert_in := [1]\<rparr>) [[0], [0]])
       = Inl S2N_ERR_ALERT_PRESENT"
    using first second by (simp add: example_defs)
  moreover have "fst (s2n_process_alert_fragments (example_conn\<lparr>alert_in := [1]\<rparr>) [[0, 0]])
       = Inr ()"
    using whole by (simp add: example_defs)
  ultimately show ?thesis by simp
qed

text \<open>
  C7 (amended). The exception for no_renegotiation (100) belongs to
  \<open>s2n_alerts_close_if_fatal\<close>: given the alert (fatal, no_renegotiation) it fails with
  the safety error \<open>S2N_ERR_SAFETY\<close> and does not set \<open>closing\<close>; given (warning,
  no_renegotiation) it succeeds and does not set \<open>closing\<close>. Inbound processing has no
  such exception: a received no_renegotiation alert is tolerated only below TLS 1.3, at
  warning level, on a connection that ignores warnings; otherwise the call fails with
  \<open>S2N_ERR_ALERT\<close> and the connection is closed.
\<close>

theorem s2n_alerts_no_renegotiation:
  "s2n_alerts_close_if_fatal (Some c)
       (Some [S2N_TLS_ALERT_LEVEL_FATAL, S2N_TLS_ALERT_NO_RENEGOTIATION])
     = (Inl S2N_ERR_SAFETY, Some c)
   \<and> s2n_alerts_close_if_fatal (Some c)
       (Some [S2N_TLS_ALERT_LEVEL_WARNING, S2N_TLS_ALERT_NO_RENEGOTIATION])
     = (Inr (), Some c)
   \<and> (s2n_alerts_supported c \<and> length (alert_in c) < 2
        \<and> alert_in c @ take (2 - length (alert_in c)) (conn_in c)
            = [level, S2N_TLS_ALERT_NO_RENEGOTIATION] \<longrightarrow>
       (if s2n_connection_get_protocol_version c < S2N_TLS13
           \<and> level = S2N_TLS_ALERT_LEVEL_WARNING
           \<and> alert_behavior (config c) = S2N_ALERT_IGNORE_WARNINGS
        then s2n_process_alert_fragment (Some c)
               = (Inr (), Some (c\<lparr>conn_in := drop (2 - length (alert_in c)) (conn_in c),
                                  alert_in := []\<rparr>))
        else fst (s2n_process_alert_fragment (Some c)) = Inl S2N_ERR_ALERT
             \<and> map_option closed (snd (s2n_process_alert_fragment (Some c))) = Some True))"
proof -
  have outbound:
    "s2n_alerts_close_if_fatal (Some c)
       (Some [S2N_TLS_ALERT_LEVEL_FATAL, S2N_TLS_ALERT_NO_RENEGOTIATION])
     = (Inl S2N_ERR_SAFETY, Some c)"
    "s2n_alerts_close_if_fatal (Some c)
       (Some [S2N_TLS_ALERT_LEVEL_WARNING, S2N_TLS_ALERT_NO_RENEGOTIATION])
     = (Inr (), Some c)"
    by (simp_all add: s2n_alerts_close_if_fatal_def S2N_ALERT_LENGTH_def
          S2N_TLS_ALERT_LEVEL_FATAL_def S2N_TLS_ALERT_LEVEL_WARNING_def)
  have inbound:
    "if s2n_connection_get_protocol_version c < S2N_TLS13
           \<and> level = S2N_TLS_ALERT_LEVEL_WARNING
           \<and> alert_behavior (config c) = S2N_ALERT_IGNORE_WARNINGS
        then s2n_process_alert_fragment (Some c)
               = (Inr (), Some (c\<lparr>conn_in := drop (2 - length (alert_in c)) (conn_in c),
                                  alert_in := []\<rparr>))
        else fst (s2n_process_alert_fragment (Some c)) = Inl S2N_ERR_ALERT
             \<and> map_option closed (snd (s2n_process_alert_fragment (Some c))) = Some True"
    if h: "s2n_alerts_supported c" "length (alert_in c) < 2"
       "alert_in c @ take (2 - length (alert_in c)) (conn_in c)
            = [level, S2N_TLS_ALERT_NO_RENEGOTIATION]"
    unfolding s2n_process_alert_fragment_completes [OF h]
    by (simp add: s2n_process_alert_fragment_dispatch_def s2n_process_as_warning_def
          s2n_stuffer_wipe_def s2n_accessor_defs s2n_tls_alert_defs Let_def
          split: prod.splits)
  show ?thesis
    using outbound inbound by blast
qed

theorem s2n_alerts_no_renegotiation_witness:
  "s2n_alerts_close_if_fatal (Some example_conn) (Some [2, 100])
     = (Inl S2N_ERR_SAFETY, Some example_conn)
   \<and> s2n_alerts_close_if_fatal (Some example_conn) (Some [1, 100])
     = (Inr (), Some example_conn)
   \<and> s2n_alerts_supported (example_conn\<lparr>protocol_version := 34, conn_in := [1, 100]\<rparr>)
   \<and> fst (s2n_process_alert_fragment
            (Some (example_conn\<lparr>protocol_version := 34, conn_in := [1, 100]\<rparr>)))
       = Inl S2N_ERR_ALERT
   \<and> map_option closed (snd (s2n_process_alert_fragment
            (Some (example_conn\<lparr>protocol_version := 34, conn_in := [1, 100]\<rparr>))))
       = Some True"
proof -
  let ?a = "example_conn\<lparr>protocol_version := 34, conn_in := [1, 100]\<rparr>"
  have h: "s2n_alerts_supported ?a \<and> length (alert_in ?a) < 2
      \<and> alert_in ?a @ take (2 - length (alert_in ?a)) (conn_in ?a)
          = [1, S2N_TLS_ALERT_NO_RENEGOTIATION]"
    by (simp add: example_defs s2n_accessor_defs S2N_TLS_ALERT_NO_RENEGOTIATION_def)
  show ?thesis
    using h s2n_alerts_no_renegotiation [of example_conn 1]
      s2n_alerts_no_renegotiation [of ?a 1]
    by (simp add: example_defs s2n_accessor_defs S2N_TLS13_def
          S2N_TLS_ALERT_LEVEL_FATAL_def S2N_TLS_ALERT_LEVEL_WARNING_def
          S2N_TLS_ALERT_NO_RENEGOTIATION_def)
qed

theorem s2n_process_alert_fragment_no_renegotiation_counterexample:
  "fst (s2n_process_alert_fragment (Some (example_conn\<lparr>conn_in := [2, 100]\<rparr>)))
     = Inl S2N_ERR_ALERT
   \<and> S2N_ERR_ALERT \<noteq> S2N_ERR_SAFETY
   \<and> closed example_conn = False
   \<and> map_option closed (snd (s2n_process_alert_fragment
          (Some (example_conn\<lparr>conn_in := [2, 100]\<rparr>)))) = Some True
   \<and> fst (s2n_process_alert_fragment
          (Some (example_conn\<lparr>config := example_config\<lparr>alert_behavior := S2N_ALERT_FAIL_ON_WARNINGS\<rparr>,
                              conn_in := [1, 100]\<rparr>)))
     = Inl S2N_ERR_ALERT
   \<and> map_option closed (snd (s2n_process_alert_fragment
          (Some (example_conn\<lparr>config := example_config\<lparr>alert_behavior := S2N_ALERT_FAIL_ON_WARNINGS\<rparr>,
                              conn_in := [1, 100]\<rparr>)))) = Some True"
proof -
  let ?a = "example_conn\<lparr>conn_in := [2, 100]\<rparr>"
  let ?b = "example_conn\<lparr>config := example_config\<lparr>alert_behavior := S2N_ALERT_FAIL_ON_WARNINGS\<rparr>,
                              conn_in := [1, 100]\<rparr>"
  have a: "s2n_alerts_supported ?a" "length (alert_in ?a) < 2"
    "alert_in ?a @ take (2 - length (alert_in ?a)) (conn_in ?a) = [2, 100]"
    by (simp_all add: example_defs s2n_accessor_defs)
  have b: "s2n_alerts_supported ?b" "length (alert_in ?b) < 2"
    "alert_in ?b @ take (2 - length (alert_in ?b)) (conn_in ?b) = [1, 100]"
    by (simp_all add: example_defs s2n_accessor_defs)
  have "S2N_ERR_ALERT \<noteq> S2N_ERR_SAFETY"
    by (simp add: s2n_err_all_defs)
  with s2n_process_alert_fragment_completes [OF a] s2n_process_alert_fragment_completes [OF b]
  show ?thesis
    by (simp add: s2n_process_alert_fragment_dispatch_def s2n_process_as_warning_def
          s2n_accessor_defs example_defs s2n_tls_alert_defs S2N_TLS_ALERT_LEVEL_WARNING_def
          S2N_TLS13_def Let_def)
qed

section \<open>Outbound alerts\<close>

text \<open>
  C9. For every connection, \<open>s2n_queue_writer_close_alert_warning\<close> returns success. It
  queues the two bytes (warning, close_notify) and sets \<open>close_notify_queued\<close> exactly
  when the writer alert buffer is empty, no close_notify was queued before and alerts are
  supported; otherwise it changes nothing. A second call right after the first changes
  nothing, so two calls queue one message.
\<close>

theorem s2n_queue_writer_close_alert_warning_once:
  "s2n_queue_writer_close_alert_warning (Some c) =
     (Inr (),
      Some (if s2n_stuffer_data_available (writer_alert_out c) = 0
               \<and> \<not> close_notify_queued c \<and> s2n_alerts_supported c
            then c\<lparr>writer_alert_out := [S2N_TLS_ALERT_LEVEL_WARNING, S2N_TLS_ALERT_CLOSE_NOTIFY],
                   close_notify_queued := True\<rparr>
            else c))
   \<and> s2n_queue_writer_close_alert_warning
        (snd (s2n_queue_writer_close_alert_warning (Some c)))
       = (Inr (), snd (s2n_queue_writer_close_alert_warning (Some c)))"
proof -
  have once: "s2n_queue_writer_close_alert_warning (Some c') =
     (Inr (),
      Some (if s2n_stuffer_data_available (writer_alert_out c') = 0
               \<and> \<not> close_notify_queued c' \<and> s2n_alerts_supported c'
            then c'\<lparr>writer_alert_out := [S2N_TLS_ALERT_LEVEL_WARNING, S2N_TLS_ALERT_CLOSE_NOTIFY],
                   close_notify_queued := True\<rparr>
            else c'))" for c' :: "'a s2n_connection"
    by (simp add: s2n_queue_writer_close_alert_warning_def s2n_stuffer_write_def
          s2n_stuffer_data_available_def S2N_ALERT_LENGTH_def Let_def)
  show ?thesis
    unfolding once by (simp add: once)
qed

theorem s2n_queue_writer_close_alert_warning_once_witness:
  "s2n_queue_writer_close_alert_warning (Some example_conn)
     = (Inr (), Some (example_conn\<lparr>writer_alert_out := [1, 0], close_notify_queued := True\<rparr>))
   \<and> s2n_queue_writer_close_alert_warning
        (Some (example_conn\<lparr>writer_alert_out := [1, 0], close_notify_queued := True\<rparr>))
     = (Inr (), Some (example_conn\<lparr>writer_alert_out := [1, 0], close_notify_queued := True\<rparr>))
   \<and> s2n_queue_writer_close_alert_warning (Some (example_conn\<lparr>quic_enabled := True\<rparr>))
     = (Inr (), Some (example_conn\<lparr>quic_enabled := True\<rparr>))"
proof -
  note once = s2n_queue_writer_close_alert_warning_once [of example_conn]
  have first: "s2n_queue_writer_close_alert_warning (Some example_conn)
     = (Inr (), Some (example_conn\<lparr>writer_alert_out := [1, 0], close_notify_queued := True\<rparr>))"
    using once [THEN conjunct1]
    by (simp add: example_defs s2n_accessor_defs S2N_TLS_ALERT_LEVEL_WARNING_def
          S2N_TLS_ALERT_CLOSE_NOTIFY_def)
  have second: "s2n_queue_writer_close_alert_warning
        (Some (example_conn\<lparr>writer_alert_out := [1, 0], close_notify_queued := True\<rparr>))
     = (Inr (), Some (example_conn\<lparr>writer_alert_out := [1, 0], close_notify_queued := True\<rparr>))"
    using once [THEN conjunct2] unfolding first by simp
  have quic: "s2n_queue_writer_close_alert_warning (Some (example_conn\<lparr>quic_enabled := True\<rparr>))
     = (Inr (), Some (example_conn\<lparr>quic_enabled := True\<rparr>))"
    using s2n_queue_writer_close_alert_warning_once
            [of "example_conn\<lparr>quic_enabled := True\<rparr>", THEN conjunct1]
    by (simp add: example_defs s2n_accessor_defs)
  show ?thesis
    using first second quic by simp
qed

end
